theory Spec2Isabelle
  imports Complex_Main
begin

text \<open>
  A shallow embedding of the thermocalc scripts: the lever rule and the conversions
  between weight and mole fractions of \<^verbatim>\<open>utils.py\<close>, the loading of the thermodynamic
  database, the menu of \<^verbatim>\<open>run_all.py\<close>, and the equilibrium tables of
  \<^verbatim>\<open>part_b_stainless_steel.py\<close>.  The definitions come first, section by section;
  the properties follow.
\<close>

section \<open>Numbers and errors\<close>

text \<open>
  The utilities of \<^verbatim>\<open>utils.py\<close> compute on Python floats.  They are embedded over
  \<^typ>\<open>real\<close>: every operation is exact, and rounding, overflow and NaN are outside the
  model.  What is proved below is the algebra of the code; an equality between reals
  stands for an equality up to rounding between doubles.  Where a statement depends on
  the rounding itself (\<open>lever_rule\<close> outside its interval), the function is embedded
  a second time on doubles, in the section on double precision.

  Exceptions are values: a function that can raise returns \<open>py_error + 'a\<close>, with
  \<open>Inl\<close> for the exception.  \<open>py_error\<close> holds exceptions derived from Python's
  \<open>Exception\<close>, the ones an \<^verbatim>\<open>except Exception\<close> clause catches; \<open>LibraryError\<close>
  stands for whatever an external library raises.
\<close>

datatype py_error =
    ZeroDivisionError
  | KeyError string
  | IndexError
  | EOFError
  | FileNotFoundError string
  | LibraryError string

text \<open>Python's \<^verbatim>\<open>a / b\<close> on floats raises when the divisor is zero.\<close>

definition py_div :: "real \<Rightarrow> real \<Rightarrow> py_error + real" where
  "py_div a b = (if b = 0 then Inl ZeroDivisionError else Inr (a / b))"

section \<open>The lever rule\<close>

text \<open>
  \<^verbatim>\<open>
  def lever_rule(overall_comp, left_comp, right_comp):
      if right_comp == left_comp:
          return 0.0, 0.0
      fraction_right = (overall_comp - left_comp) / (right_comp - left_comp)
      fraction_left = 1.0 - fraction_right
      return fraction_left, fraction_right
  \<close>
\<close>

definition lever_rule :: "real \<Rightarrow> real \<Rightarrow> real \<Rightarrow> py_error + (real \<times> real)" where
  "lever_rule overall_comp left_comp right_comp =
     (if right_comp = left_comp then Inr (0, 0)
      else case py_div (overall_comp - left_comp) (right_comp - left_comp) of
             Inl e \<Rightarrow> Inl e
           | Inr fraction_right \<Rightarrow> Inr (1 - fraction_right, fraction_right))"

section \<open>Weight fractions and mole fractions\<close>

text \<open>
  A Python dictionary from element names to floats is an association list in insertion
  order (the keys of a dictionary are distinct).  \<^verbatim>\<open>d[k]\<close> raises \<open>KeyError\<close> on a
  missing key.  A dictionary comprehension visits the items in order and stops at the
  first item whose value expression raises.
\<close>

type_synonym py_dict = "(string \<times> real) list"

definition getitem :: "py_dict \<Rightarrow> string \<Rightarrow> py_error + real" where
  "getitem d k = (case map_of d k of None \<Rightarrow> Inl (KeyError k) | Some v \<Rightarrow> Inr v)"

fun dict_comp :: "(string \<Rightarrow> real \<Rightarrow> py_error + real) \<Rightarrow> py_dict \<Rightarrow> py_error + py_dict" where
  "dict_comp f [] = Inr []"
| "dict_comp f ((k, v) # items) =
     (case f k v of
        Inl e \<Rightarrow> Inl e
      | Inr v' \<Rightarrow> (case dict_comp f items of
                    Inl e \<Rightarrow> Inl e
                  | Inr rest \<Rightarrow> Inr ((k, v') # rest)))"

text \<open>\<^verbatim>\<open>d.values()\<close> and the keys of \<open>d\<close>, in insertion order.\<close>

definition dict_values :: "py_dict \<Rightarrow> real list" where
  "dict_values d = map snd d"

definition dict_keys :: "py_dict \<Rightarrow> string list" where
  "dict_keys d = map fst d"

text \<open>
  \<^verbatim>\<open>
  def wt_to_mole_fraction(wt_fractions, molar_masses):
      moles = {elem: wt / molar_masses[elem] for elem, wt in wt_fractions.items()}
      total_moles = sum(moles.values())
      return {elem: mol / total_moles for elem, mol in moles.items()}

  def mole_to_wt_fraction(mole_fractions, molar_masses):
      weights = {elem: mole * molar_masses[elem] for elem, mole in mole_fractions.items()}
      total_weight = sum(weights.values())
      return {elem: wt / total_weight for elem, wt in weights.items()}
  \<close>
\<close>

definition wt_to_mole_fraction :: "py_dict \<Rightarrow> py_dict \<Rightarrow> py_error + py_dict" where
  "wt_to_mole_fraction wt_fractions molar_masses =
     (case dict_comp (\<lambda>elem wt. case getitem molar_masses elem of
                                    Inl e \<Rightarrow> Inl e
                                  | Inr m \<Rightarrow> py_div wt m) wt_fractions of
        Inl e \<Rightarrow> Inl e
      | Inr moles \<Rightarrow>
          (let total_moles = sum_list (dict_values moles)
           in dict_comp (\<lambda>elem mol. py_div mol total_moles) moles))"

definition mole_to_wt_fraction :: "py_dict \<Rightarrow> py_dict \<Rightarrow> py_error + py_dict" where
  "mole_to_wt_fraction mole_fractions molar_masses =
     (case dict_comp (\<lambda>elem mole. case getitem molar_masses elem of
                                      Inl e \<Rightarrow> Inl e
                                    | Inr m \<Rightarrow> Inr (mole * m)) mole_fractions of
        Inl e \<Rightarrow> Inl e
      | Inr weights \<Rightarrow>
          (let total_weight = sum_list (dict_values weights)
           in dict_comp (\<lambda>elem wt. py_div wt total_weight) weights))"

subsection \<open>Vocabulary for the statements\<close>

text \<open>
  The definitions of this subsection are not code of the repository: they name the
  quantities the theorems speak about.
\<close>

text \<open>The molar mass the code reads for a key (0 stands for a missing key, where the code raises).\<close>

definition mass_of :: "py_dict \<Rightarrow> string \<Rightarrow> real" where
  "mass_of molar_masses k = (case map_of molar_masses k of None \<Rightarrow> 0 | Some m \<Rightarrow> m)"

text \<open>Every key of \<open>d\<close> has a molar mass, and it is positive.\<close>

definition positive_masses :: "py_dict \<Rightarrow> py_dict \<Rightarrow> bool" where
  "positive_masses molar_masses d =
     list_all (\<lambda>k. case map_of molar_masses k of None \<Rightarrow> False | Some m \<Rightarrow> 0 < m) (dict_keys d)"

text \<open>The totals the two functions divide by.\<close>

definition total_moles_of :: "py_dict \<Rightarrow> py_dict \<Rightarrow> real" where
  "total_moles_of mm d = sum_list (map (\<lambda>(k, v). v / mass_of mm k) d)"

definition total_weight_of :: "py_dict \<Rightarrow> py_dict \<Rightarrow> real" where
  "total_weight_of mm d = sum_list (map (\<lambda>(k, v). v * mass_of mm k) d)"

section \<open>The quadratic fit\<close>

text \<open>
  \<^verbatim>\<open>
  def quadratic_fit(x_data, y_data):
      def quadratic(x, a, b, c):
          return a * x**2 + b * x + c
      popt, _ = curve_fit(quadratic, x_data, y_data)
      return tuple(popt)
  \<close>
  \<^verbatim>\<open>curve_fit\<close> is scipy's: it is a parameter, which returns the optimal parameters (three,
  one for each of \<open>a\<close>, \<open>b\<close>, \<open>c\<close>) and their covariance, or raises.  The data arrays are
  lists of reals.
\<close>

definition quadratic :: "real \<Rightarrow> real \<Rightarrow> real \<Rightarrow> real \<Rightarrow> real" where
  "quadratic x a b c = a * x ^ 2 + b * x + c"

definition quadratic_fit ::
  "((real \<Rightarrow> real \<Rightarrow> real \<Rightarrow> real \<Rightarrow> real) \<Rightarrow> real list \<Rightarrow> real list
      \<Rightarrow> py_error + ((real \<times> real \<times> real) \<times> 'cov))
   \<Rightarrow> real list \<Rightarrow> real list \<Rightarrow> py_error + (real \<times> real \<times> real)" where
  "quadratic_fit curve_fit x_data y_data =
     (case curve_fit quadratic x_data y_data of
        Inl e \<Rightarrow> Inl e
      | Inr (popt, pcov) \<Rightarrow> Inr popt)"

subsection \<open>The contract of \<^verbatim>\<open>curve_fit\<close>\<close>

text \<open>
  The definitions of this subsection are not code of the repository.  scipy documents
  \<^verbatim>\<open>curve_fit(f, xdata, ydata)\<close> as returning the parameters \<open>popt\<close> for which the sum
  of the squared residuals \<open>f(xdata, *popt) - ydata\<close> is least.  \<open>curve_fit_contract\<close>
  says that the call does so on the given data.
\<close>

definition squared_error ::
  "(real \<Rightarrow> real \<Rightarrow> real \<Rightarrow> real \<Rightarrow> real) \<Rightarrow> real list \<Rightarrow> real list \<Rightarrow> real \<times> real \<times> real \<Rightarrow> real" where
  "squared_error f x_data y_data p =
     (case p of (a, b, c) \<Rightarrow> (\<Sum>(x, y) \<leftarrow> zip x_data y_data. (f x a b c - y) ^ 2))"

definition least_squares ::
  "(real \<Rightarrow> real \<Rightarrow> real \<Rightarrow> real \<Rightarrow> real) \<Rightarrow> real list \<Rightarrow> real list \<Rightarrow> real \<times> real \<times> real \<Rightarrow> bool" where
  "least_squares f x_data y_data p = (\<forall>q. squared_error f x_data y_data p \<le> squared_error f x_data y_data q)"

definition curve_fit_contract ::
  "((real \<Rightarrow> real \<Rightarrow> real \<Rightarrow> real \<Rightarrow> real) \<Rightarrow> real list \<Rightarrow> real list
      \<Rightarrow> py_error + ((real \<times> real \<times> real) \<times> 'cov))
   \<Rightarrow> (real \<Rightarrow> real \<Rightarrow> real \<Rightarrow> real \<Rightarrow> real) \<Rightarrow> real list \<Rightarrow> real list \<Rightarrow> bool" where
  "curve_fit_contract curve_fit f x_data y_data =
     (\<exists>popt pcov. curve_fit f x_data y_data = Inr (popt, pcov)
                  \<and> least_squares f x_data y_data popt)"

section \<open>The lever rule in double precision\<close>

text \<open>
  A Python float is an IEEE 754 binary64 value: a finite number \<open>m * 2^e\<close> with
  \<open>|m| < 2^53\<close> and \<open>-1074 \<le> e \<le> 971\<close>, an infinity, or NaN.  The two zeros compare
  equal and no operation of \<open>lever_rule\<close> tells them apart, so there is one zero.
\<close>

datatype double = Finite real | PInf | NInf | NaN

text \<open>
  Every arithmetic operation returns the exact result rounded to the nearest double,
  ties to the even significand.  For \<open>x \<noteq> 0\<close> the spacing of the doubles around \<open>x\<close> is
  \<open>ulp x\<close>: \<open>2^(e - 52)\<close> where \<open>2^e \<le> |x| < 2^(e + 1)\<close>, and \<open>2^(-1074)\<close> below
  \<open>2^(-1022)\<close> (the subnormal range).  A rounded magnitude of \<open>2^1024\<close> or more overflows
  to an infinity.  \<open>round_double_eval\<close> below computes \<open>round_double\<close> at a given input.
\<close>

definition least_double :: real where
  "least_double = 2 powi (- 1074)"

definition overflow_threshold :: real where
  "overflow_threshold = 2 powi 1024"

definition round_half_even :: "real \<Rightarrow> int" where
  "round_half_even q =
     (let f = \<lfloor>q\<rfloor>; d = q - of_int f
      in if d < 1 / 2 then f else if 1 / 2 < d then f + 1 else if even f then f else f + 1)"

definition exponent_of :: "real \<Rightarrow> int" where
  "exponent_of x = max \<lfloor>log 2 \<bar>x\<bar>\<rfloor> (- 1022)"

definition ulp :: "real \<Rightarrow> real" where
  "ulp x = 2 powi (exponent_of x - 52)"

definition rounded_magnitude :: "real \<Rightarrow> real" where
  "rounded_magnitude x = of_int (round_half_even (\<bar>x\<bar> / ulp x)) * ulp x"

definition round_double :: "real \<Rightarrow> double" where
  "round_double x =
     (if x = 0 then Finite 0
      else if overflow_threshold \<le> rounded_magnitude x then (if 0 < x then PInf else NInf)
      else Finite (if 0 < x then rounded_magnitude x else - rounded_magnitude x))"

text \<open>
  Python's \<^verbatim>\<open>a - b\<close>, \<^verbatim>\<open>a / b\<close> (which raises \<open>ZeroDivisionError\<close> whenever the divisor
  is zero), \<^verbatim>\<open>a == b\<close> and \<^verbatim>\<open>a <= b\<close> on floats.  A comparison with NaN is false.
\<close>

fun float_sub :: "double \<Rightarrow> double \<Rightarrow> double" where
  "float_sub (Finite x) (Finite y) = round_double (x - y)"
| "float_sub NaN b = NaN"
| "float_sub a NaN = NaN"
| "float_sub PInf PInf = NaN"
| "float_sub NInf NInf = NaN"
| "float_sub PInf b = PInf"
| "float_sub NInf b = NInf"
| "float_sub (Finite x) PInf = NInf"
| "float_sub (Finite x) NInf = PInf"

fun float_truediv :: "double \<Rightarrow> double \<Rightarrow> py_error + double" where
  "float_truediv a (Finite y) =
     (if y = 0 then Inl ZeroDivisionError
      else case a of
             Finite x \<Rightarrow> Inr (round_double (x / y))
           | PInf \<Rightarrow> Inr (if 0 < y then PInf else NInf)
           | NInf \<Rightarrow> Inr (if 0 < y then NInf else PInf)
           | NaN \<Rightarrow> Inr NaN)"
| "float_truediv a NaN = Inr NaN"
| "float_truediv (Finite x) b = Inr (Finite 0)"
| "float_truediv a b = Inr NaN"

definition float_eq :: "double \<Rightarrow> double \<Rightarrow> bool" where
  "float_eq a b = (a \<noteq> NaN \<and> a = b)"

fun float_le :: "double \<Rightarrow> double \<Rightarrow> bool" where
  "float_le NaN b = False"
| "float_le a NaN = False"
| "float_le NInf b = True"
| "float_le a PInf = True"
| "float_le (Finite x) (Finite y) = (x \<le> y)"
| "float_le a b = False"

text \<open>
  \<open>lever_rule\<close> of \<^verbatim>\<open>utils.py\<close> again, line by line, on doubles.  \<open>lever_rule\<close> above is
  the same function in exact arithmetic.
\<close>

definition lever_rule_double :: "double \<Rightarrow> double \<Rightarrow> double \<Rightarrow> py_error + (double \<times> double)" where
  "lever_rule_double overall_comp left_comp right_comp =
     (if float_eq right_comp left_comp then Inr (Finite 0, Finite 0)
      else case float_truediv (float_sub overall_comp left_comp)
                              (float_sub right_comp left_comp) of
             Inl e \<Rightarrow> Inl e
           | Inr fraction_right \<Rightarrow> Inr (float_sub (Finite 1) fraction_right, fraction_right))"

text \<open>
  The finite doubles.  \<open>is_double\<close> names what the statements speak about; it is not
  code of the repository.
\<close>

definition is_double :: "real \<Rightarrow> bool" where
  "is_double x = (\<exists>m e :: int. x = of_int m * 2 powi e \<and> \<bar>m\<bar> < 2 ^ 53 \<and> - 1074 \<le> e \<and> e \<le> 971)"

section \<open>Loading the thermodynamic database\<close>

text \<open>
  The file system is a map from paths to file contents, together with a log of the
  writes performed, in order.  \<^verbatim>\<open>os.path.exists\<close> asks whether the path is in the map;
  \<^verbatim>\<open>open(path, 'w')\<close> followed by \<^verbatim>\<open>f.write(text)\<close> sets the contents of the
  path and is logged.  Standard output is not part of this model.
\<close>

record file_system =
  files :: "string \<rightharpoonup> string"
  writes :: "(string \<times> string) list"

definition os_path_exists :: "file_system \<Rightarrow> string \<Rightarrow> bool" where
  "os_path_exists fs path = (files fs path \<noteq> None)"

definition write_file :: "string \<Rightarrow> string \<Rightarrow> file_system \<Rightarrow> file_system" where
  "write_file path contents fs =
     fs\<lparr>files := (files fs)(path \<mapsto> contents), writes := writes fs @ [(path, contents)]\<rparr>"

text \<open>
  \<^verbatim>\<open>Database(db_file)\<close> is pycalphad's constructor: it reads the file and parses its
  text.  The parser is external, so it is a parameter \<open>parse\<close>, which may raise.
\<close>

definition Database :: "(string \<Rightarrow> py_error + 'db) \<Rightarrow> file_system \<Rightarrow> string \<Rightarrow> py_error + 'db" where
  "Database parse fs path =
     (case files fs path of
        None \<Rightarrow> Inl (FileNotFoundError path)
      | Some contents \<Rightarrow> parse contents)"

text \<open>The database texts the two scripts write, character for character.\<close>

definition create_simple_fec_database :: string where
  "create_simple_fec_database = concat
    [''\<newline>'',
     ''$ Simplified Fe-C database for educational use\<newline>'',
     ''$ Based on literature data\<newline>'',
     ''\<newline>'',
     ''ELEMENT FE BLANK 0.0 0.0 0.0 !\<newline>'',
     ''ELEMENT C  BLANK 0.0 0.0 0.0 !\<newline>'',
     ''ELEMENT VA BLANK 0.0 0.0 0.0 !\<newline>'',
     ''\<newline>'',
     ''FUNCTION GHSERFE 298.15\<newline>'',
     ''    +1225.7+124.134*T-23.5143*T*LN(T)-0.00439752*T**2-5.8927E-8*T**3\<newline>'',
     ''    +77359*T**(-1); 1811.0 Y\<newline>'',
     ''    -25383.581+299.31255*T-46.0*T*LN(T)+2.29603E+31*T**(-9); 6000.0 N !\<newline>'',
     ''\<newline>'',
     ''FUNCTION GHSERCC 298.15\<newline>'',
     ''    -17368.441+170.73*T-24.3*T*LN(T)-0.00437791*T**2+1.2116E-7*T**3\<newline>'',
     ''    -2.6434E+5*T**(-1); 6000.0 N !\<newline>'',
     ''\<newline>'',
     ''TYPE_DEFINITION % SEQ * !\<newline>'',
     ''DEFINE_SYSTEM_DEFAULT ELEMENT 2 !\<newline>'',
     ''DEFAULT_COMMAND DEFINE_SYSTEM_ELEMENT VA !\<newline>'',
     ''\<newline>'',
     ''PHASE LIQUID:L % 1 1.0 !\<newline>'',
     ''CONSTITUENT LIQUID:L : FE,C : !\<newline>'',
     ''PARAMETER G(LIQUID,FE;0) 298.15 +GHSERFE+12040.17-6.55843*T; 6000.0 N !\<newline>'',
     ''PARAMETER G(LIQUID,C;0) 298.15 +GHSERCC+25000-10*T; 6000.0 N !\<newline>'',
     ''PARAMETER G(LIQUID,FE,C;0) 298.15 -124320+28.5*T; 6000.0 N !\<newline>'',
     ''\<newline>'',
     ''PHASE BCC_A2 % 2 1 3 !\<newline>'',
     ''CONSTITUENT BCC_A2 : FE : C,VA : !\<newline>'',
     ''PARAMETER G(BCC_A2,FE:VA;0) 298.15 +GHSERFE; 6000.0 N !\<newline>'',
     ''PARAMETER G(BCC_A2,FE:C;0) 298.15 +GHSERFE+GHSERCC+80000-40*T; 6000.0 N !\<newline>'',
     ''\<newline>'',
     ''PHASE FCC_A1 % 2 1 1 !\<newline>'',
     ''CONSTITUENT FCC_A1 : FE : C,VA : !\<newline>'',
     ''PARAMETER G(FCC_A1,FE:VA;0) 298.15 +GHSERFE-1462.4+8.282*T-1.15*T*LN(T)+6.4E-4*T**2; 6000.0 N !\<newline>'',
     ''PARAMETER G(FCC_A1,FE:C;0) 298.15 +GHSERFE+GHSERCC+77207-15.877*T; 6000.0 N !\<newline>'',
     ''PARAMETER G(FCC_A1,FE:C,VA;0) 298.15 +40000; 6000.0 N !\<newline>'',
     ''\<newline>'',
     ''PHASE CEMENTITE % 2 3 1 !\<newline>'',
     ''CONSTITUENT CEMENTITE : FE : C : !\<newline>'',
     ''PARAMETER G(CEMENTITE,FE:C;0) 298.15 \<newline>'',
     ''    +3*GHSERFE+GHSERCC+13500; 6000.0 N !\<newline>'',
     ''\<newline>'',
     ''PHASE GRAPHITE % 1 1.0 !\<newline>'',
     ''CONSTITUENT GRAPHITE : C : !\<newline>'',
     ''PARAMETER G(GRAPHITE,C;0) 298.15 +GHSERCC; 6000.0 N !\<newline>'']"

definition create_fecrc_database :: string where
  "create_fecrc_database = concat
    [''\<newline>'',
     ''$ Simplified Fe-Cr-C database for Type 410 stainless steel\<newline>'',
     ''$ For educational purposes only\<newline>'',
     ''\<newline>'',
     ''ELEMENT FE BLANK 0.0 0.0 0.0 !\<newline>'',
     ''ELEMENT CR BLANK 0.0 0.0 0.0 !\<newline>'',
     ''ELEMENT C  BLANK 0.0 0.0 0.0 !\<newline>'',
     ''ELEMENT VA BLANK 0.0 0.0 0.0 !\<newline>'',
     ''\<newline>'',
     ''FUNCTION GHSERFE 298.15\<newline>'',
     ''    +1225.7+124.134*T-23.5143*T*LN(T)-0.00439752*T**2-5.8927E-8*T**3\<newline>'',
     ''    +77359*T**(-1); 1811.0 Y\<newline>'',
     ''    -25383.581+299.31255*T-46.0*T*LN(T)+2.29603E+31*T**(-9); 6000.0 N !\<newline>'',
     ''\<newline>'',
     ''FUNCTION GHSERCR 298.15\<newline>'',
     ''    -8856.94+157.48*T-26.908*T*LN(T)+0.00189435*T**2-1.47721E-6*T**3\<newline>'',
     ''    +139250*T**(-1); 2180.0 Y\<newline>'',
     ''    -34869.344+344.18*T-50.0*T*LN(T)-2.88526E+32*T**(-9); 6000.0 N !\<newline>'',
     ''\<newline>'',
     ''FUNCTION GHSERCC 298.15\<newline>'',
     ''    -17368.441+170.73*T-24.3*T*LN(T)-0.00437791*T**2+1.2116E-7*T**3\<newline>'',
     ''    -2.6434E+5*T**(-1); 6000.0 N !\<newline>'',
     ''\<newline>'',
     ''TYPE_DEFINITION % SEQ * !\<newline>'',
     ''DEFINE_SYSTEM_DEFAULT ELEMENT 2 !\<newline>'',
     ''DEFAULT_COMMAND DEFINE_SYSTEM_ELEMENT VA !\<newline>'',
     ''\<newline>'',
     ''PHASE LIQUID:L % 1 1.0 !\<newline>'',
     ''CONSTITUENT LIQUID:L : FE,CR,C : !\<newline>'',
     ''PARAMETER G(LIQUID,FE;0) 298.15 +GHSERFE+12040.17-6.55843*T; 6000.0 N !\<newline>'',
     ''PARAMETER G(LIQUID,CR;0) 298.15 +GHSERCR+24339.955-11.420225*T; 6000.0 N !\<newline>'',
     ''PARAMETER G(LIQUID,C;0) 298.15 +GHSERCC+25000-10*T; 6000.0 N !\<newline>'',
     ''\<newline>'',
     ''PHASE BCC_A2 % 2 1 3 !\<newline>'',
     ''CONSTITUENT BCC_A2 : FE,CR : C,VA : !\<newline>'',
     ''PARAMETER G(BCC_A2,FE:VA;0) 298.15 +GHSERFE; 6000.0 N !\<newline>'',
     ''PARAMETER G(BCC_A2,CR:VA;0) 298.15 +GHSERCR; 6000.0 N !\<newline>'',
     ''PARAMETER G(BCC_A2,FE:C;0) 298.15 +GHSERFE+GHSERCC+80000-40*T; 6000.0 N !\<newline>'',
     ''PARAMETER G(BCC_A2,CR:C;0) 298.15 +GHSERCR+GHSERCC+100000-50*T; 6000.0 N !\<newline>'',
     ''PARAMETER G(BCC_A2,FE,CR:VA;0) 298.15 +20500-9.68*T; 6000.0 N !\<newline>'',
     ''\<newline>'',
     ''PHASE FCC_A1 % 2 1 1 !\<newline>'',
     ''CONSTITUENT FCC_A1 : FE,CR : C,VA : !\<newline>'',
     ''PARAMETER G(FCC_A1,FE:VA;0) 298.15 +GHSERFE-1462.4+8.282*T-1.15*T*LN(T)+6.4E-4*T**2; 6000.0 N !\<newline>'',
     ''PARAMETER G(FCC_A1,CR:VA;0) 298.15 +GHSERCR+7284+0.163*T; 6000.0 N !\<newline>'',
     ''PARAMETER G(FCC_A1,FE:C;0) 298.15 +GHSERFE+GHSERCC+77207-15.877*T; 6000.0 N !\<newline>'',
     ''PARAMETER G(FCC_A1,CR:C;0) 298.15 +GHSERCR+GHSERCC+70000-20*T; 6000.0 N !\<newline>'',
     ''\<newline>'',
     ''PHASE CEMENTITE % 2 3 1 !\<newline>'',
     ''CONSTITUENT CEMENTITE : FE,CR : C : !\<newline>'',
     ''PARAMETER G(CEMENTITE,FE:C;0) 298.15 +3*GHSERFE+GHSERCC+13500; 6000.0 N !\<newline>'',
     ''PARAMETER G(CEMENTITE,CR:C;0) 298.15 +3*GHSERCR+GHSERCC+20000; 6000.0 N !\<newline>'',
     ''\<newline>'',
     ''PHASE M23C6 % 2 23 6 !\<newline>'',
     ''CONSTITUENT M23C6 : CR,FE : C : !\<newline>'',
     ''PARAMETER G(M23C6,CR:C;0) 298.15 +23*GHSERCR+6*GHSERCC-521983+3622.24*T-620.965*T*LN(T)-0.126431*T**2; 6000.0 N !\<newline>'',
     ''PARAMETER G(M23C6,FE:C;0) 298.15 +23*GHSERFE+6*GHSERCC-300000; 6000.0 N !\<newline>'',
     ''\<newline>'',
     ''PHASE M7C3 % 2 7 3 !\<newline>'',
     ''CONSTITUENT M7C3 : CR,FE : C : !\<newline>'',
     ''PARAMETER G(M7C3,CR:C;0) 298.15 +7*GHSERCR+3*GHSERCC-201690+1103.128*T-190.177*T*LN(T)-0.0578207*T**2; 6000.0 N !\<newline>'',
     ''PARAMETER G(M7C3,FE:C;0) 298.15 +7*GHSERFE+3*GHSERCC-150000; 6000.0 N !\<newline>'',
     ''\<newline>'',
     ''PHASE M3C % 2 3 1 !\<newline>'',
     ''CONSTITUENT M3C : CR,FE : C : !\<newline>'',
     ''PARAMETER G(M3C,CR:C;0) 298.15 +3*GHSERCR+GHSERCC-100000+40*T; 6000.0 N !\<newline>'',
     ''PARAMETER G(M3C,FE:C;0) 298.15 +3*GHSERFE+GHSERCC+13500; 6000.0 N !\<newline>'']"

text \<open>
  \<^verbatim>\<open>
  def load_database():
      db_file = 'fe_c.tdb'
      if os.path.exists(db_file):
          db = Database(db_file)
      else:
          tdb_str = create_simple_fec_database()
          with open(db_file, 'w') as f:
              f.write(tdb_str)
          db = Database(db_file)
      return db
  \<close>
  \<open>load_fecrc_database\<close> of \<^verbatim>\<open>part_b_stainless_steel.py\<close> is the same with
  \<^verbatim>\<open>'fe_cr_c.tdb'\<close> and \<open>create_fecrc_database\<close>.  The functions return the file
  system they leave behind and what \<open>Database\<close> returned or raised.
\<close>

definition load_database ::
  "(string \<Rightarrow> py_error + 'db) \<Rightarrow> file_system \<Rightarrow> file_system \<times> (py_error + 'db)" where
  "load_database parse fs =
     (let db_file = ''fe_c.tdb'' in
      if os_path_exists fs db_file then (fs, Database parse fs db_file)
      else let tdb_str = create_simple_fec_database;
               fs' = write_file db_file tdb_str fs
           in (fs', Database parse fs' db_file))"

definition load_fecrc_database ::
  "(string \<Rightarrow> py_error + 'db) \<Rightarrow> file_system \<Rightarrow> file_system \<times> (py_error + 'db)" where
  "load_fecrc_database parse fs =
     (let db_file = ''fe_cr_c.tdb'' in
      if os_path_exists fs db_file then (fs, Database parse fs db_file)
      else let tdb_str = create_fecrc_database;
               fs' = write_file db_file tdb_str fs
           in (fs', Database parse fs' db_file))"

section \<open>The menu of \<^verbatim>\<open>run_all.py\<close>\<close>

text \<open>
  What the script does is recorded as a trace of events, in order: a banner
  (\<open>print_banner\<close>), a printed line, a dependency found or not found (the two lines
  \<open>check_dependencies\<close> prints for a package), the prompt of \<^verbatim>\<open>input\<close>, and the calls
  of \<^verbatim>\<open>part_a_carbon_steel.main()\<close> and of \<^verbatim>\<open>part_b_stainless_steel.main()\<close> (the
  name under which \<^verbatim>\<open>run_all.py\<close> imports \<^verbatim>\<open>part_b_simplified\<close>).
\<close>

datatype event =
    Banner string
  | Print string
  | Found string
  | NotFound string
  | Input string
  | CallPartA
  | CallPartB

text \<open>
  How a run ends: \<open>main\<close> returns, \<^verbatim>\<open>sys.exit(n)\<close> is called, or an exception
  propagates out of \<open>main\<close>.  The exit status of the process follows.
\<close>

datatype outcome = Returned | Exited int | Raised py_error

fun exit_status :: "outcome \<Rightarrow> int" where
  "exit_status Returned = 0"
| "exit_status (Exited n) = n"
| "exit_status (Raised e) = 1"

text \<open>
  The two parts, and the import of their modules, act on the world outside the script
  (files, figures); each is a parameter that returns the new world and the exception it
  raised, if any.
\<close>

type_synonym 'w action = "'w \<Rightarrow> 'w \<times> py_error option"

text \<open>
  \<^verbatim>\<open>str.strip()\<close> removes the leading and trailing characters for which
  \<^verbatim>\<open>str.isspace\<close> holds.  A character is a code point below 256; among these the
  white space is U+0009 to U+000D, U+001C to U+001F, the space U+0020, U+0085 and
  U+00A0.
\<close>

definition py_isspace :: "char \<Rightarrow> bool" where
  "py_isspace c = (c \<in> set [CHR '' '', CHR 0x09, CHR 0x0A, CHR 0x0B, CHR 0x0C, CHR 0x0D,
                             CHR 0x1C, CHR 0x1D, CHR 0x1E, CHR 0x1F, CHR 0x85, CHR 0xA0])"

definition strip :: "string \<Rightarrow> string" where
  "strip s = rev (dropWhile py_isspace (rev (dropWhile py_isspace s)))"

text \<open>\<^verbatim>\<open>sep.join(xs)\<close>\<close>

fun join :: "string \<Rightarrow> string list \<Rightarrow> string" where
  "join sep [] = []"
| "join sep [x] = x"
| "join sep (x # y # ys) = x @ sep @ join sep (y # ys)"

text \<open>
  \<^verbatim>\<open>
  def check_dependencies():
      print_banner("Checking Dependencies")
      required = ['pycalphad', 'numpy', 'matplotlib', 'scipy', 'pandas']
      missing = []
      for package in required:
          try:
              __import__(package)
              print(f"(found) {package}")
          except ImportError:
              print(f"(not found) {package} - NOT FOUND")
              missing.append(package)
      if missing:
          print(f"\nMissing packages: {', '.join(missing)}")
          print("Install with: pip install -r requirements.txt")
          return False
      print("\nAll dependencies satisfied!")
      return True
  \<close>
  \<open>importable\<close> says which packages \<^verbatim>\<open>__import__\<close> finds; for the others it raises
  \<open>ImportError\<close>, which the loop catches.
\<close>

definition required :: "string list" where
  "required = [''pycalphad'', ''numpy'', ''matplotlib'', ''scipy'', ''pandas'']"

fun check_loop :: "(string \<Rightarrow> bool) \<Rightarrow> string list \<Rightarrow> event list \<times> string list" where
  "check_loop importable [] = ([], [])"
| "check_loop importable (package # rest) =
     (let (out, missing) = check_loop importable rest
      in if importable package then (Found package # out, missing)
         else (NotFound package # out, package # missing))"

definition check_dependencies :: "(string \<Rightarrow> bool) \<Rightarrow> event list \<times> bool" where
  "check_dependencies importable =
     (let (out, missing) = check_loop importable required
      in if missing \<noteq> []
         then ([Banner ''Checking Dependencies''] @ out @
               [Print (''\<newline>Missing packages: '' @ join '', '' missing),
                Print ''Install with: pip install -r requirements.txt''], False)
         else ([Banner ''Checking Dependencies''] @ out @
               [Print ''\<newline>All dependencies satisfied!''], True))"

text \<open>
  \<open>main\<close> of \<^verbatim>\<open>run_all.py\<close>.  \<open>stdin\<close> is the line \<^verbatim>\<open>input\<close> reads (without its
  newline), or \<open>None\<close> at end of file, where \<^verbatim>\<open>input\<close> raises \<open>EOFError\<close>.
\<close>

definition menu :: "event list" where
  "menu = [Banner ''Select Analysis'',
           Print ''1. Part A: Carbon Steel Design (Fe-C Binary System)'',
           Print ''2. Part B: Stainless Steel Design (Fe-Cr-C Ternary System)'',
           Print ''3. Run Both Parts'',
           Print ''4. Exit'',
           Input ''\<newline>Enter choice (1-4): '']"

definition project_complete :: "event list" where
  "project_complete =
     [Banner ''PROJECT COMPLETE'',
      Print ''All calculations finished successfully!'',
      Print ''\<newline>Results Location:'',
      Print ''  - Plots: outputs/*.png'',
      Print ''  - Data: outputs/*.csv'',
      Print ''  - Databases: *.tdb'',
      Print ''\<newline>Next Steps:'',
      Print ''  1. Review plots in outputs/ directory'',
      Print ''  2. Examine calculation results in CSV files'',
      Print ''  3. Compile findings into your report'',
      Print ''  4. Submit to PrairieLearn and GradeScope'']"

text \<open>A call that returned lets \<open>main\<close> go on; a call that raised ends the run.\<close>

fun ending :: "py_error option \<Rightarrow> outcome" where
  "ending None = Returned"
| "ending (Some e) = Raised e"

text \<open>The \<^verbatim>\<open>if\<close>/\<^verbatim>\<open>elif\<close> chain of \<open>main\<close> on the stripped line.\<close>

definition dispatch ::
  "string \<Rightarrow> 'w action \<Rightarrow> 'w action \<Rightarrow> 'w \<Rightarrow> 'w \<times> event list \<times> outcome" where
  "dispatch choice part_a_main part_b_main w =
     (if choice = ''1'' then
        (let (w', r) = part_a_main w
         in (w', [Banner ''Running Part A: Carbon Steel Design'', CallPartA], ending r))
      else if choice = ''2'' then
        (let (w', r) = part_b_main w
         in (w', [Banner ''Running Part B: Stainless Steel Design'', CallPartB], ending r))
      else if choice = ''3'' then
        (case part_a_main w of
           (w', Some e) \<Rightarrow> (w', [Banner ''Running Complete Project'', CallPartA], Raised e)
         | (w', None) \<Rightarrow>
             (case part_b_main w' of
                (w'', Some e) \<Rightarrow>
                  (w'', [Banner ''Running Complete Project'', CallPartA, CallPartB], Raised e)
              | (w'', None) \<Rightarrow>
                  (w'', [Banner ''Running Complete Project'', CallPartA, CallPartB]
                        @ project_complete, Returned)))
      else if choice = ''4'' then (w, [Print ''Exiting...''], Exited 0)
      else (w, [Print ''Invalid choice. Please run again.''], Exited 1))"

definition main ::
  "(string \<Rightarrow> bool) \<Rightarrow> 'w action \<Rightarrow> string option \<Rightarrow> 'w action \<Rightarrow> 'w action \<Rightarrow> 'w
     \<Rightarrow> 'w \<times> event list \<times> outcome" where
  "main importable import_parts stdin part_a_main part_b_main w =
     (let out0 = [Banner ''THERMO-CALC PROJECT: CARBON AND STAINLESS STEEL DESIGN'',
                  Print ''Using pycalphad for computational thermodynamics'',
                  Print ''Author: Engineering Design Module 3''];
          (out1, ok) = check_dependencies importable
      in if \<not> ok then
           (w, out0 @ out1 @ [Print ''\<newline>Please install dependencies before continuing.'',
                             Print ''Run: pip install -r requirements.txt''], Exited 1)
         else
           (case import_parts w of
              (w1, Some e) \<Rightarrow> (w1, out0 @ out1, Raised e)
            | (w1, None) \<Rightarrow>
                (case stdin of
                   None \<Rightarrow> (w1, out0 @ out1 @ menu, Raised EOFError)
                 | Some line \<Rightarrow>
                     (let choice = strip line;
                          (w2, out2, result) = dispatch choice part_a_main part_b_main w1
                      in (w2, out0 @ out1 @ menu @ out2, result)))))"

text \<open>The calls of the two parts in a trace, in order.\<close>

definition calls :: "event list \<Rightarrow> event list" where
  "calls out = filter (\<lambda>ev. ev = CallPartA \<or> ev = CallPartB) out"

section \<open>Equilibrium tables\<close>

text \<open>
  pycalphad is external: what the scripts use of it is a record of functions, each of
  which may raise.  A condition passed to the solver is a number or a
  \<^verbatim>\<open>np.linspace\<close> range; the conditions are the dictionary the call passes.  The
  solver reports a phase amount as a number or as NaN (\<open>None\<close>).
\<close>

datatype cond_value = Scalar real | Linspace real real nat

type_synonym conds = "(string \<times> cond_value) list"

record ('db, 'eq) pycalphad =
  db_phases :: "'db \<Rightarrow> string list"
  equilibrium :: "'db \<Rightarrow> string list \<Rightarrow> string list \<Rightarrow> conds \<Rightarrow> py_error + 'eq"
  Phase_values :: "'eq \<Rightarrow> py_error + string list"
  NP_values :: "'eq \<Rightarrow> py_error + real option list"
  X_isel :: "'eq \<Rightarrow> nat \<Rightarrow> py_error + real list"
  eqplot :: "'eq \<Rightarrow> py_error option"

text \<open>
  The fields are \<^verbatim>\<open>db.phases\<close> (its keys), \<^verbatim>\<open>equilibrium(db, comps, phases, conds)\<close>,
  \<^verbatim>\<open>eq.Phase.values.squeeze()\<close> (each entry as \<^verbatim>\<open>str(p)\<close>), \<^verbatim>\<open>eq.NP.values.squeeze()\<close>,
  \<^verbatim>\<open>eq.X.isel(vertex=i).values.squeeze()\<close> and \<^verbatim>\<open>eqplot(eq, ...)\<close>.
\<close>

text \<open>
  \<^verbatim>\<open>np_array[i] > 1e-6\<close>: a comparison with NaN is false.
\<close>

definition significant :: "real option \<Rightarrow> bool" where
  "significant np = (case np of None \<Rightarrow> False | Some x \<Rightarrow> 1 / 1000000 < x)"

text \<open>
  The block both table functions run before the \<^verbatim>\<open>try\<close>:
  \<^verbatim>\<open>
  M_Fe, M_Cr, M_C = 55.845, 51.996, 12.011
  w_C = c_wt / 100
  w_Cr = cr_content / 100
  w_Fe = 1 - w_C - w_Cr
  n_Fe = w_Fe / M_Fe
  n_Cr = w_Cr / M_Cr
  n_C = w_C / M_C
  n_total = n_Fe + n_Cr + n_C
  x_C = n_C / n_total
  x_Cr = n_Cr / n_total
  \<close>
  Only the divisions by \<open>n_total\<close> can raise.
\<close>

definition n_total :: "real \<Rightarrow> real \<Rightarrow> real" where
  "n_total c_wt cr_content =
     (let M_Fe = 55.845; M_Cr = 51.996; M_C = 12.011;
          w_C = c_wt / 100;
          w_Cr = cr_content / 100;
          w_Fe = 1 - w_C - w_Cr;
          n_Fe = w_Fe / M_Fe;
          n_Cr = w_Cr / M_Cr;
          n_C = w_C / M_C
      in n_Fe + n_Cr + n_C)"

definition mole_fractions :: "real \<Rightarrow> real \<Rightarrow> py_error + (real \<times> real)" where
  "mole_fractions c_wt cr_content =
     (let M_Cr = 51.996; M_C = 12.011;
          w_C = c_wt / 100;
          w_Cr = cr_content / 100;
          n_Cr = w_Cr / M_Cr;
          n_C = w_C / M_C
      in case py_div n_C (n_total c_wt cr_content) of
           Inl e \<Rightarrow> Inl e
         | Inr x_C \<Rightarrow>
             (case py_div n_Cr (n_total c_wt cr_content) of
                Inl e \<Rightarrow> Inl e
              | Inr x_Cr \<Rightarrow> Inr (x_C, x_Cr)))"

text \<open>A \<^verbatim>\<open>for\<close> loop that appends one row per item and stops at the first exception.\<close>

fun for_each :: "('a \<Rightarrow> py_error + 'b) \<Rightarrow> 'a list \<Rightarrow> py_error + 'b list" where
  "for_each body [] = Inr []"
| "for_each body (x # xs) =
     (case body x of
        Inl e \<Rightarrow> Inl e
      | Inr row \<Rightarrow> (case for_each body xs of Inl e \<Rightarrow> Inl e | Inr rows \<Rightarrow> Inr (row # rows)))"

subsection \<open>\<open>plot_binary_at_fixed_cr\<close>\<close>

text \<open>
  The table loop of \<open>plot_binary_at_fixed_cr(db, cr_content)\<close>:
  \<^verbatim>\<open>
  results = []
  for c_wt in [0.0, 0.5, 1.0, 1.5, 2.0, 2.5, 3.0, 3.5, 4.0, 4.5, 5.0]:
      for T in [1000, 1100, 1200, 1300, 1350, 1400, 1500, 1525, 1600, 1700, 1800]:
          ... the block above ...
          try:
              eq = equilibrium(db, comps, phases,
                               {v.T: T, v.P: 101325, v.X('CR'): x_Cr, v.X('C'): x_C})
              phase_array = eq.Phase.values.squeeze()
              np_array = eq.NP.values.squeeze()
              phase_names = []
              for i, p in enumerate(phase_array):
                  phase_name = str(p).strip()
                  if phase_name and phase_name != '' and np_array[i] > 1e-6:
                      phase_names.append(phase_name)
              results.append({'T_K': T, 'C_wt%': c_wt,
                              'phases': '+'.join(phase_names) if phase_names else 'NONE'})
          except Exception as e:
              results.append({'T_K': T, 'C_wt%': c_wt, 'phases': 'ERROR'})
  \<close>
  \<open>b1_phase_loop\<close> is the inner \<^verbatim>\<open>for\<close> (\<open>np_array[i]\<close> raises \<open>IndexError\<close> out of
  range), \<open>b1_try\<close> the body of the \<^verbatim>\<open>try\<close>, \<open>b1_point\<close> one iteration with its
  \<^verbatim>\<open>except\<close> clause, and \<open>plot_binary_at_fixed_cr\<close> returns \<open>results\<close>.  The figure,
  the CSV file and the printed lines that follow the loop are not modelled.
\<close>

record b1_row =
  b1_T_K :: real
  b1_C_wt :: real
  b1_phases :: string

fun b1_phase_loop :: "nat \<Rightarrow> string list \<Rightarrow> real option list \<Rightarrow> py_error + string list" where
  "b1_phase_loop i [] np_array = Inr []"
| "b1_phase_loop i (p # rest) np_array =
     (let phase_name = strip p in
      if phase_name \<noteq> [] then
        (if i < length np_array then
           (case b1_phase_loop (Suc i) rest np_array of
              Inl e \<Rightarrow> Inl e
            | Inr phase_names \<Rightarrow>
                Inr (if significant (np_array ! i) then phase_name # phase_names
                     else phase_names))
         else Inl IndexError)
      else b1_phase_loop (Suc i) rest np_array)"

text \<open>The conditions both table loops pass to the solver at one point.\<close>

definition point_conds :: "real \<Rightarrow> real \<Rightarrow> real \<Rightarrow> conds" where
  "point_conds T x_Cr x_C =
     [(''T'', Scalar T), (''P'', Scalar 101325), (''X(CR)'', Scalar x_Cr), (''X(C)'', Scalar x_C)]"

definition b1_try ::
  "('db, 'eq) pycalphad \<Rightarrow> 'db \<Rightarrow> string list \<Rightarrow> string list \<Rightarrow> real \<Rightarrow> real \<Rightarrow> real \<Rightarrow> real
     \<Rightarrow> py_error + b1_row" where
  "b1_try lib db comps phase_list T c_wt x_Cr x_C =
     (case equilibrium lib db comps phase_list (point_conds T x_Cr x_C) of
        Inl e \<Rightarrow> Inl e
      | Inr eq \<Rightarrow>
     (case Phase_values lib eq of
        Inl e \<Rightarrow> Inl e
      | Inr phase_array \<Rightarrow>
     (case NP_values lib eq of
        Inl e \<Rightarrow> Inl e
      | Inr np_array \<Rightarrow>
     (case b1_phase_loop 0 phase_array np_array of
        Inl e \<Rightarrow> Inl e
      | Inr phase_names \<Rightarrow>
          Inr \<lparr>b1_T_K = T, b1_C_wt = c_wt,
               b1_phases = (if phase_names \<noteq> [] then join ''+'' phase_names
                            else ''NONE'')\<rparr>))))"

definition b1_point ::
  "('db, 'eq) pycalphad \<Rightarrow> 'db \<Rightarrow> string list \<Rightarrow> string list \<Rightarrow> real \<Rightarrow> real \<times> real
     \<Rightarrow> py_error + b1_row" where
  "b1_point lib db comps phase_list cr_content point =
     (case point of (c_wt, T) \<Rightarrow>
      (case mole_fractions c_wt cr_content of
         Inl e \<Rightarrow> Inl e
       | Inr (x_C, x_Cr) \<Rightarrow>
           (case b1_try lib db comps phase_list T c_wt x_Cr x_C of
              Inr row \<Rightarrow> Inr row
            | Inl e \<Rightarrow> Inr \<lparr>b1_T_K = T, b1_C_wt = c_wt, b1_phases = ''ERROR''\<rparr>)))"

definition b1_grid :: "(real \<times> real) list" where
  "b1_grid = List.product [0.0, 0.5, 1.0, 1.5, 2.0, 2.5, 3.0, 3.5, 4.0, 4.5, 5.0]
                          [1000, 1100, 1200, 1300, 1350, 1400, 1500, 1525, 1600, 1700, 1800]"

text \<open>The components and the phases (those the database has) of both table functions.\<close>

definition b_comps :: "string list" where
  "b_comps = [''FE'', ''CR'', ''C'', ''VA'']"

definition b_phases :: "('db, 'eq) pycalphad \<Rightarrow> 'db \<Rightarrow> string list" where
  "b_phases lib db =
     filter (\<lambda>p. p \<in> set (db_phases lib db))
       [''LIQUID'', ''BCC_A2'', ''FCC_A1'', ''CEMENTITE'', ''M23C6'', ''M7C3'', ''M3C'']"

definition plot_binary_at_fixed_cr ::
  "('db, 'eq) pycalphad \<Rightarrow> 'db \<Rightarrow> real \<Rightarrow> py_error + b1_row list" where
  "plot_binary_at_fixed_cr lib db cr_content =
     for_each (b1_point lib db b_comps (b_phases lib db) cr_content) b1_grid"

subsection \<open>\<open>plot_ternary_diagram\<close>\<close>

text \<open>
  The table loop of \<open>plot_ternary_diagram(db, temperature)\<close>:
  \<^verbatim>\<open>
  results = []
  for comp in compositions:
      ... the block above, with comp['C'] and comp['Cr'] ...
      try:
          eq = equilibrium(db, comps, phases,
                           {v.T: temperature, v.P: 101325, v.X('CR'): x_Cr, v.X('C'): x_C})
          phase_names = []
          phase_compositions = []
          phase_array = eq.Phase.values.squeeze()
          np_array = eq.NP.values.squeeze()
          for i, p in enumerate(phase_array):
              phase_name = str(p).strip()
              if phase_name and phase_name != '' and np_array[i] > 1e-6:
                  phase_names.append(phase_name)
                  try:
                      x_vals = eq.X.isel(vertex=i).values.squeeze()
                      phase_compositions.append(f"{phase_name}")
                  except:
                      phase_compositions.append(f"{phase_name}")
          results.append({'Composition': comp['name'],
                          'Phases': ', '.join(phase_names) if phase_names else 'Single phase',
                          'Count': len(phase_names)})
      except Exception as e:
          results.append({'Composition': comp['name'],
                          'Phases': 'Calculation error - use phase diagram',
                          'Count': 0})
  \<close>
  A composition is the triple of its \<open>name\<close>, \<open>Cr\<close> and \<open>C\<close> entries.
\<close>

record b2_row =
  Composition :: string
  Phases :: string
  Count :: nat

fun b2_phase_loop ::
  "('db, 'eq) pycalphad \<Rightarrow> 'eq \<Rightarrow> nat \<Rightarrow> string list \<Rightarrow> real option list
     \<Rightarrow> py_error + (string list \<times> string list)" where
  "b2_phase_loop lib eq i [] np_array = Inr ([], [])"
| "b2_phase_loop lib eq i (p # rest) np_array =
     (let phase_name = strip p in
      if phase_name \<noteq> [] then
        (if i < length np_array then
           (if significant (np_array ! i) then
              (let entry = (case X_isel lib eq i of
                              Inr x_vals \<Rightarrow> phase_name
                            | Inl e \<Rightarrow> phase_name)
               in case b2_phase_loop lib eq (Suc i) rest np_array of
                    Inl e \<Rightarrow> Inl e
                  | Inr (phase_names, phase_compositions) \<Rightarrow>
                      Inr (phase_name # phase_names, entry # phase_compositions))
            else b2_phase_loop lib eq (Suc i) rest np_array)
         else Inl IndexError)
      else b2_phase_loop lib eq (Suc i) rest np_array)"

definition b2_try ::
  "('db, 'eq) pycalphad \<Rightarrow> 'db \<Rightarrow> string list \<Rightarrow> string list \<Rightarrow> real \<Rightarrow> string \<Rightarrow> real \<Rightarrow> real
     \<Rightarrow> py_error + b2_row" where
  "b2_try lib db comps phase_list temperature name x_Cr x_C =
     (case equilibrium lib db comps phase_list (point_conds temperature x_Cr x_C) of
        Inl e \<Rightarrow> Inl e
      | Inr eq \<Rightarrow>
     (case Phase_values lib eq of
        Inl e \<Rightarrow> Inl e
      | Inr phase_array \<Rightarrow>
     (case NP_values lib eq of
        Inl e \<Rightarrow> Inl e
      | Inr np_array \<Rightarrow>
     (case b2_phase_loop lib eq 0 phase_array np_array of
        Inl e \<Rightarrow> Inl e
      | Inr (phase_names, phase_compositions) \<Rightarrow>
          Inr \<lparr>Composition = name,
               Phases = (if phase_names \<noteq> [] then join '', '' phase_names
                         else ''Single phase''),
               Count = length phase_names\<rparr>))))"

definition compositions :: "(string \<times> real \<times> real) list" where
  "compositions =
     [(''Fe-15.0Cr-0.01C'', 15.0, 0.01),
      (''Fe-15.0Cr-0.70C'', 15.0, 0.70),
      (''Fe-20.0Cr-0.20C'', 20.0, 0.20),
      (''Fe-15.0Cr-3.0C'', 15.0, 3.0)]"

definition b2_point ::
  "('db, 'eq) pycalphad \<Rightarrow> 'db \<Rightarrow> string list \<Rightarrow> string list \<Rightarrow> real \<Rightarrow> string \<times> real \<times> real
     \<Rightarrow> py_error + b2_row" where
  "b2_point lib db comps phase_list temperature composition =
     (case composition of (name, Cr, C) \<Rightarrow>
      (case mole_fractions C Cr of
         Inl e \<Rightarrow> Inl e
       | Inr (x_C, x_Cr) \<Rightarrow>
           (case b2_try lib db comps phase_list temperature name x_Cr x_C of
              Inr row \<Rightarrow> Inr row
            | Inl e \<Rightarrow> Inr \<lparr>Composition = name,
                             Phases = ''Calculation error - use phase diagram'',
                             Count = 0\<rparr>)))"

definition plot_ternary_diagram ::
  "('db, 'eq) pycalphad \<Rightarrow> 'db \<Rightarrow> real \<Rightarrow> py_error + b2_row list" where
  "plot_ternary_diagram lib db temperature =
     for_each (b2_point lib db b_comps (b_phases lib db) temperature) compositions"

subsection \<open>\<open>plot_phase_diagram_a1\<close>\<close>

text \<open>
  \<open>plot_phase_diagram_a1(db)\<close> of \<^verbatim>\<open>part_a_carbon_steel.py\<close> calls the solver outside
  any \<^verbatim>\<open>try\<close>, draws the result with \<open>eqplot\<close> and returns it:
  \<^verbatim>\<open>
  comps = ['FE', 'C', 'VA']
  phases = ['LIQUID', 'BCC_A2', 'FCC_A1', 'CEMENTITE', 'GRAPHITE']
  phases = [p for p in phases if p in db.phases]
  temps = np.linspace(500, 2000, 300)
  x_c = np.linspace(0, 0.07, 300)
  eq = equilibrium(db, comps, phases, {v.T: temps, v.P: 101325, v.X('C'): x_c})
  ...
  eqplot(eq, ax=ax, x=v.X('C'), y=v.T)
  ...
  return eq
  \<close>
\<close>

definition a1_comps :: "string list" where
  "a1_comps = [''FE'', ''C'', ''VA'']"

definition a1_phases :: "('db, 'eq) pycalphad \<Rightarrow> 'db \<Rightarrow> string list" where
  "a1_phases lib db =
     filter (\<lambda>p. p \<in> set (db_phases lib db))
       [''LIQUID'', ''BCC_A2'', ''FCC_A1'', ''CEMENTITE'', ''GRAPHITE'']"

definition a1_conds :: conds where
  "a1_conds = [(''T'', Linspace 500 2000 300), (''P'', Scalar 101325),
               (''X(C)'', Linspace 0 0.07 300)]"

definition plot_phase_diagram_a1 :: "('db, 'eq) pycalphad \<Rightarrow> 'db \<Rightarrow> py_error + 'eq" where
  "plot_phase_diagram_a1 lib db =
     (case equilibrium lib db a1_comps (a1_phases lib db) a1_conds of
        Inl e \<Rightarrow> Inl e
      | Inr eq \<Rightarrow> (case eqplot lib eq of Some e \<Rightarrow> Inl e | None \<Rightarrow> Inr eq))"

subsection \<open>Stand-ins for the library\<close>

text \<open>
  Three libraries for the examples: one whose solver always raises, one whose solver
  returns and whose result cannot be read, and one whose solver returns a result with
  one phase present, of which the composition cannot be read.
\<close>

definition lib_solver_fails :: "(unit, unit) pycalphad" where
  "lib_solver_fails =
     \<lparr>db_phases = (\<lambda>db. [''LIQUID'', ''BCC_A2'', ''FCC_A1'']),
      equilibrium = (\<lambda>db comps phase_list conditions. Inl (LibraryError ''solver'')),
      Phase_values = (\<lambda>eq. Inr []),
      NP_values = (\<lambda>eq. Inr []),
      X_isel = (\<lambda>eq i. Inr []),
      eqplot = (\<lambda>eq. None)\<rparr>"

definition lib_read_fails :: "(unit, unit) pycalphad" where
  "lib_read_fails =
     \<lparr>db_phases = (\<lambda>db. [''LIQUID'', ''BCC_A2'', ''FCC_A1'']),
      equilibrium = (\<lambda>db comps phase_list conditions. Inr ()),
      Phase_values = (\<lambda>eq. Inl (LibraryError ''squeeze'')),
      NP_values = (\<lambda>eq. Inr []),
      X_isel = (\<lambda>eq i. Inr []),
      eqplot = (\<lambda>eq. None)\<rparr>"

definition lib_isel_fails :: "(unit, unit) pycalphad" where
  "lib_isel_fails =
     \<lparr>db_phases = (\<lambda>db. [''LIQUID'', ''BCC_A2'', ''FCC_A1'']),
      equilibrium = (\<lambda>db comps phase_list conditions. Inr ()),
      Phase_values = (\<lambda>eq. Inr [''FCC_A1'', []]),
      NP_values = (\<lambda>eq. Inr [Some 1, None]),
      X_isel = (\<lambda>eq i. Inl (LibraryError ''isel'')),
      eqplot = (\<lambda>eq. None)\<rparr>"

section \<open>Properties of the lever rule\<close>

lemma lever_rule_neq:
  "left_comp \<noteq> right_comp \<Longrightarrow>
     lever_rule overall_comp left_comp right_comp =
       Inr (1 - (overall_comp - left_comp) / (right_comp - left_comp),
            (overall_comp - left_comp) / (right_comp - left_comp))"
  by (auto simp: lever_rule_def py_div_def)

lemma lever_rule_eq: "lever_rule overall_comp c c = Inr (0, 0)"
  by (simp add: lever_rule_def)

lemma lever_rule_Inr: "\<exists>p. lever_rule overall_comp left_comp right_comp = Inr p"
  by (cases "left_comp = right_comp") (auto simp: lever_rule_eq lever_rule_neq)

text \<open>
  Claim C1.  For bounding compositions \<open>left \<noteq> right\<close>, \<open>lever_rule\<close> returns the pair
  \<open>(fraction_left, fraction_right)\<close> with
  \<open>fraction_right = (overall - left) / (right - left)\<close> and
  \<open>fraction_left = 1 - fraction_right\<close>.
\<close>

theorem lever_rule_formula:
  assumes "left_comp \<noteq> right_comp"
  shows "\<exists>fraction_left fraction_right.
           lever_rule overall_comp left_comp right_comp = Inr (fraction_left, fraction_right)
         \<and> fraction_right = (overall_comp - left_comp) / (right_comp - left_comp)
         \<and> fraction_left = 1 - fraction_right"
  using assms by (simp add: lever_rule_neq)

theorem lever_rule_formula_witness:
  "(0::real) \<noteq> 4 \<and> lever_rule 1 0 4 = Inr (3 / 4, 1 / 4)"
  using lever_rule_formula [of 0 4 1] by auto

text \<open>
  Claim C2.  For \<open>left < overall < right\<close> the two fractions returned by
  \<open>lever_rule\<close> add up to 1 and both lie in the closed interval from 0 to 1.
\<close>

theorem lever_rule_between:
  assumes "left_comp < overall_comp" and "overall_comp < right_comp"
  shows "\<exists>fraction_left fraction_right.
           lever_rule overall_comp left_comp right_comp = Inr (fraction_left, fraction_right)
         \<and> fraction_left + fraction_right = 1
         \<and> 0 \<le> fraction_left \<and> fraction_left \<le> 1
         \<and> 0 \<le> fraction_right \<and> fraction_right \<le> 1"
proof -
  let ?fr = "(overall_comp - left_comp) / (right_comp - left_comp)"
  from assms have ne: "left_comp \<noteq> right_comp" by simp
  from assms have "0 \<le> ?fr" by simp
  moreover from assms have "?fr \<le> 1" by simp
  ultimately show ?thesis
    using lever_rule_neq [OF ne, of overall_comp] by simp
qed

theorem lever_rule_between_witness:
  "(1::real) < 2 \<and> (2::real) < 5 \<and>
   (\<exists>fraction_left fraction_right.
           lever_rule 2 1 5 = Inr (fraction_left, fraction_right)
         \<and> fraction_left + fraction_right = 1
         \<and> 0 \<le> fraction_left \<and> fraction_left \<le> 1
         \<and> 0 \<le> fraction_right \<and> fraction_right \<le> 1)"
  using lever_rule_between [of 1 2 5] by simp

text \<open>
  Claim C3.  When the two bounding compositions are equal, \<open>lever_rule\<close> returns
  exactly \<open>(0, 0)\<close> and does not divide: a division by \<open>right - left = 0\<close> would
  raise \<open>ZeroDivisionError\<close>, and \<open>lever_rule\<close> raises nothing on any input.  In
  the other branch the divisor \<open>right - left\<close> is not zero, so the division returns
  the quotient.
\<close>

theorem lever_rule_degenerate:
  "lever_rule overall_comp c c = Inr (0, 0)
   \<and> (\<forall>e. lever_rule overall_comp left_comp right_comp \<noteq> Inl e)
   \<and> (right_comp \<noteq> left_comp \<longrightarrow>
        right_comp - left_comp \<noteq> 0
        \<and> py_div (overall_comp - left_comp) (right_comp - left_comp)
            = Inr ((overall_comp - left_comp) / (right_comp - left_comp)))"
  using lever_rule_Inr [of overall_comp left_comp right_comp]
  by (auto simp: lever_rule_eq py_div_def)

theorem lever_rule_degenerate_witness:
  "lever_rule 3 7 7 = Inr (0, 0)
   \<and> (\<forall>e. lever_rule 3 1 5 \<noteq> Inl e)
   \<and> (5::real) \<noteq> 1 \<and> py_div (3 - 1) (5 - 1) = Inr (1 / 2)"
  using lever_rule_degenerate [of 3 7 1 5] by simp

text \<open>
  In exact arithmetic \<open>lever_rule\<close> extrapolates: for \<open>left \<noteq> right\<close> and \<open>overall\<close>
  strictly outside the closed interval bounded by \<open>left\<close> and \<open>right\<close> (in either order),
  the fractions add up to 1, one is negative and the other exceeds 1.  The section on
  double precision below states what remains of this on the floats of the code.
\<close>

lemma lever_rule_outside_exact:
  assumes "left_comp \<noteq> right_comp"
      and "overall_comp < min left_comp right_comp \<or> max left_comp right_comp < overall_comp"
  shows "\<exists>fraction_left fraction_right.
           lever_rule overall_comp left_comp right_comp = Inr (fraction_left, fraction_right)
         \<and> fraction_left + fraction_right = 1
         \<and> ((fraction_left < 0 \<and> 1 < fraction_right) \<or> (fraction_right < 0 \<and> 1 < fraction_left))"
proof -
  let ?fr = "(overall_comp - left_comp) / (right_comp - left_comp)"
  have "?fr < 0 \<or> 1 < ?fr"
    using assms by (auto simp: divide_less_0_iff less_divide_eq_1 zero_less_divide_iff)
  then show ?thesis
    using lever_rule_neq [OF assms(1), of overall_comp] by auto
qed

section \<open>Properties of the conversions\<close>

lemma dict_comp_total:
  "(\<And>k v. (k, v) \<in> set d \<Longrightarrow> f k v = Inr (g k v)) \<Longrightarrow>
     dict_comp f d = Inr (map (\<lambda>(k, v). (k, g k v)) d)"
  by (induction d) auto

lemma positive_masses_getitem:
  "positive_masses mm d \<Longrightarrow> (k, v) \<in> set d \<Longrightarrow>
     getitem mm k = Inr (mass_of mm k) \<and> 0 < mass_of mm k"
  by (force simp: positive_masses_def dict_keys_def list_all_iff getitem_def mass_of_def
           split: option.splits)

lemma values_map: "dict_values (map (\<lambda>(k, v). (k, g k v)) d) = map (\<lambda>(k, v). g k v) d"
  by (induction d) (auto simp: dict_values_def)

lemma keys_map: "dict_keys (map (\<lambda>(k, v). (k, g k v)) d) = dict_keys d"
  by (induction d) (auto simp: dict_keys_def)

lemma sum_list_divide: "sum_list (map (\<lambda>(k, v). g k v / (c::real)) d) = sum_list (map (\<lambda>(k, v). g k v) d) / c"
  by (induction d) (auto simp: add_divide_distrib)

lemma wt_to_mole_fraction_eq:
  assumes pm: "positive_masses mm d" and nz: "total_moles_of mm d \<noteq> 0"
  shows "wt_to_mole_fraction d mm =
           Inr (map (\<lambda>(k, v). (k, v / mass_of mm k / total_moles_of mm d)) d)"
proof -
  have 1: "dict_comp (\<lambda>elem wt. case getitem mm elem of Inl e \<Rightarrow> Inl e | Inr m \<Rightarrow> py_div wt m) d
          = Inr (map (\<lambda>(k, v). (k, v / mass_of mm k)) d)"
    by (rule dict_comp_total) (use positive_masses_getitem [OF pm] in \<open>force simp: py_div_def\<close>)
  have 2: "dict_values (map (\<lambda>(k, v). (k, v / mass_of mm k)) d) = map (\<lambda>(k, v). v / mass_of mm k) d"
    by (rule values_map)
  have 3: "dict_comp (\<lambda>elem mol. py_div mol (total_moles_of mm d)) (map (\<lambda>(k, v). (k, v / mass_of mm k)) d)
     = Inr (map (\<lambda>(k, v). (k, v / total_moles_of mm d)) (map (\<lambda>(k, v). (k, v / mass_of mm k)) d))"
    by (rule dict_comp_total) (simp add: py_div_def nz)
  have "wt_to_mole_fraction d mm =
          dict_comp (\<lambda>elem mol. py_div mol (sum_list (dict_values (map (\<lambda>(k, v). (k, v / mass_of mm k)) d))))
            (map (\<lambda>(k, v). (k, v / mass_of mm k)) d)"
    by (simp add: wt_to_mole_fraction_def 1 Let_def)
  also have "\<dots> = dict_comp (\<lambda>elem mol. py_div mol (total_moles_of mm d))
            (map (\<lambda>(k, v). (k, v / mass_of mm k)) d)"
    by (simp only: 2 total_moles_of_def)
  also note 3
  finally show ?thesis
    by (simp add: case_prod_unfold)
qed

lemma mole_to_wt_fraction_eq:
  assumes pm: "positive_masses mm d" and nz: "total_weight_of mm d \<noteq> 0"
  shows "mole_to_wt_fraction d mm =
           Inr (map (\<lambda>(k, v). (k, v * mass_of mm k / total_weight_of mm d)) d)"
proof -
  have 1: "dict_comp (\<lambda>elem mole. case getitem mm elem of Inl e \<Rightarrow> Inl e | Inr m \<Rightarrow> Inr (mole * m)) d
          = Inr (map (\<lambda>(k, v). (k, v * mass_of mm k)) d)"
    by (rule dict_comp_total) (use positive_masses_getitem [OF pm] in force)
  have 2: "dict_values (map (\<lambda>(k, v). (k, v * mass_of mm k)) d) = map (\<lambda>(k, v). v * mass_of mm k) d"
    by (rule values_map)
  have 3: "dict_comp (\<lambda>elem wt. py_div wt (total_weight_of mm d)) (map (\<lambda>(k, v). (k, v * mass_of mm k)) d)
     = Inr (map (\<lambda>(k, v). (k, v / total_weight_of mm d)) (map (\<lambda>(k, v). (k, v * mass_of mm k)) d))"
    by (rule dict_comp_total) (simp add: py_div_def nz)
  have "mole_to_wt_fraction d mm =
          dict_comp (\<lambda>elem wt. py_div wt (sum_list (dict_values (map (\<lambda>(k, v). (k, v * mass_of mm k)) d))))
            (map (\<lambda>(k, v). (k, v * mass_of mm k)) d)"
    by (simp add: mole_to_wt_fraction_def 1 Let_def)
  also have "\<dots> = dict_comp (\<lambda>elem wt. py_div wt (total_weight_of mm d))
            (map (\<lambda>(k, v). (k, v * mass_of mm k)) d)"
    by (simp only: 2 total_weight_of_def)
  also note 3
  finally show ?thesis
    by (simp add: case_prod_unfold)
qed


lemma sum_list_pos_dict:
  "d \<noteq> [] \<Longrightarrow> (\<And>k v. (k, v) \<in> set d \<Longrightarrow> 0 < g k v) \<Longrightarrow>
     (0::real) < sum_list (map (\<lambda>(k, v). g k v) d)"
proof (induction d)
  case Nil
  then show ?case by simp
next
  case (Cons p d)
  obtain k v where p: "p = (k, v)" by (cases p)
  have "0 < g k v" using Cons.prems(2) [of k v] p by simp
  moreover have "0 \<le> sum_list (map (\<lambda>(k, v). g k v) d)"
    by (rule sum_list_nonneg) (use Cons.prems(2) in \<open>force simp: less_imp_le\<close>)
  ultimately show ?case using p by simp
qed

lemma positive_masses_map:
  "positive_masses mm (map (\<lambda>(k, v). (k, g k v)) d) = positive_masses mm d"
  by (simp add: positive_masses_def keys_map)

lemma total_moles_pos:
  assumes "d \<noteq> []" and "list_all (\<lambda>v. 0 < v) (dict_values d)" and "positive_masses mm d"
  shows "0 < total_moles_of mm d"
  unfolding total_moles_of_def
proof (rule sum_list_pos_dict [OF assms(1)])
  fix k v assume kv: "(k, v) \<in> set d"
  then have "0 < v" using assms(2) by (force simp: list_all_iff dict_values_def)
  then show "0 < v / mass_of mm k"
    using positive_masses_getitem [OF assms(3) kv] by simp
qed

lemma total_weight_pos:
  assumes "d \<noteq> []" and "list_all (\<lambda>v. 0 < v) (dict_values d)" and "positive_masses mm d"
  shows "0 < total_weight_of mm d"
  unfolding total_weight_of_def
proof (rule sum_list_pos_dict [OF assms(1)])
  fix k v assume kv: "(k, v) \<in> set d"
  then have "0 < v" using assms(2) by (force simp: list_all_iff dict_values_def)
  then show "0 < v * mass_of mm k"
    using positive_masses_getitem [OF assms(3) kv] by simp
qed

text \<open>
  Claim C10.  For a nonempty dictionary with positive values whose keys all have a
  positive molar mass, \<open>wt_to_mole_fraction\<close> and \<open>mole_to_wt_fraction\<close> each return
  a dictionary with the key set of the input whose values add up to 1, whatever the
  input values add up to.
\<close>

theorem fractions_normalised:
  assumes "d \<noteq> []" and "list_all (\<lambda>v. 0 < v) (dict_values d)" and "positive_masses mm d"
  shows "\<exists>x w. wt_to_mole_fraction d mm = Inr x
             \<and> set (dict_keys x) = set (dict_keys d) \<and> sum_list (dict_values x) = 1
             \<and> mole_to_wt_fraction d mm = Inr w
             \<and> set (dict_keys w) = set (dict_keys d) \<and> sum_list (dict_values w) = 1"
proof -
  have T: "0 < total_moles_of mm d" by (rule total_moles_pos [OF assms])
  have W: "0 < total_weight_of mm d" by (rule total_weight_pos [OF assms])
  let ?x = "map (\<lambda>(k, v). (k, v / mass_of mm k / total_moles_of mm d)) d"
  let ?w = "map (\<lambda>(k, v). (k, v * mass_of mm k / total_weight_of mm d)) d"
  have x: "wt_to_mole_fraction d mm = Inr ?x"
    using wt_to_mole_fraction_eq [OF assms(3)] T by simp
  have w: "mole_to_wt_fraction d mm = Inr ?w"
    using mole_to_wt_fraction_eq [OF assms(3)] W by simp
  have "sum_list (dict_values ?x) = total_moles_of mm d / total_moles_of mm d"
    by (simp only: values_map sum_list_divide total_moles_of_def)
  then have sx: "sum_list (dict_values ?x) = 1" using T by simp
  have "sum_list (dict_values ?w) = total_weight_of mm d / total_weight_of mm d"
    by (simp only: values_map sum_list_divide total_weight_of_def)
  then have sw: "sum_list (dict_values ?w) = 1" using W by simp
  show ?thesis
  proof (intro exI conjI)
    show "wt_to_mole_fraction d mm = Inr ?x" by (rule x)
    show "set (dict_keys ?x) = set (dict_keys d)" by (simp only: keys_map)
    show "sum_list (dict_values ?x) = 1" by (rule sx)
    show "mole_to_wt_fraction d mm = Inr ?w" by (rule w)
    show "set (dict_keys ?w) = set (dict_keys d)" by (simp only: keys_map)
    show "sum_list (dict_values ?w) = 1" by (rule sw)
  qed
qed


theorem fractions_normalised_witness:
  "[(''A'', 3), (''B'', 1)] \<noteq> ([] :: py_dict)
   \<and> list_all (\<lambda>v. 0 < v) (dict_values [(''A'', 3), (''B'', 1)])
   \<and> positive_masses [(''A'', 2), (''B'', 4)] [(''A'', 3), (''B'', 1)]
   \<and> (\<exists>x w. wt_to_mole_fraction [(''A'', 3), (''B'', 1)] [(''A'', 2), (''B'', 4)] = Inr x
             \<and> set (dict_keys x) = set (dict_keys [(''A'', 3), (''B'', 1)])
             \<and> sum_list (dict_values x) = 1
             \<and> mole_to_wt_fraction [(''A'', 3), (''B'', 1)] [(''A'', 2), (''B'', 4)] = Inr w
             \<and> set (dict_keys w) = set (dict_keys [(''A'', 3), (''B'', 1)])
             \<and> sum_list (dict_values w) = 1)"
  using fractions_normalised [of "[(''A'', 3), (''B'', 1)]" "[(''A'', 2), (''B'', 4)]"]
  by (simp add: positive_masses_def dict_keys_def dict_values_def)

lemma wt_to_mole_example:
  "wt_to_mole_fraction [(''A'', 3), (''B'', 1)] [(''A'', 2), (''B'', 4)]
     = Inr [(''A'', 6 / 7), (''B'', 1 / 7)]"
  by (simp add: wt_to_mole_fraction_def getitem_def py_div_def dict_values_def)

lemma positive_masses_nz:
  "positive_masses mm d \<Longrightarrow> (k, v) \<in> set d \<Longrightarrow> mass_of mm k \<noteq> 0"
  using positive_masses_getitem [of mm d k v] by simp

lemma total_weight_after:
  assumes pm: "positive_masses mm d"
  shows "total_weight_of mm (map (\<lambda>(k, v). (k, v / mass_of mm k / t)) d)
           = sum_list (dict_values d) / t"
proof -
  have "map (\<lambda>(k, v). v * mass_of mm k) (map (\<lambda>(k, v). (k, v / mass_of mm k / t)) d)
          = map (\<lambda>(k, v). v / t) d"
    by (auto simp: case_prod_unfold dest: positive_masses_nz [OF pm])
  then have "total_weight_of mm (map (\<lambda>(k, v). (k, v / mass_of mm k / t)) d)
          = sum_list (map (\<lambda>(k, v). v / t) d)"
    by (simp only: total_weight_of_def)
  also have "\<dots> = sum_list (map (\<lambda>(k, v). v) d) / t"
    by (rule sum_list_divide)
  also have "map (\<lambda>(k, v). v) d = dict_values d"
    by (simp add: dict_values_def case_prod_unfold)
  finally show ?thesis .
qed

lemma roundtrip_normalises:
  assumes pm: "positive_masses mm d"
      and T: "total_moles_of mm d \<noteq> 0"
      and S: "sum_list (dict_values d) \<noteq> 0"
  shows "\<exists>x. wt_to_mole_fraction d mm = Inr x
           \<and> mole_to_wt_fraction x mm = Inr (map (\<lambda>(k, v). (k, v / sum_list (dict_values d))) d)"
proof -
  let ?t = "total_moles_of mm d"
  let ?x = "map (\<lambda>(k, v). (k, v / mass_of mm k / ?t)) d"
  have x: "wt_to_mole_fraction d mm = Inr ?x"
    by (rule wt_to_mole_fraction_eq [OF pm T])
  have pmx: "positive_masses mm ?x"
    by (simp only: positive_masses_map pm)
  have tw: "total_weight_of mm ?x = sum_list (dict_values d) / ?t"
    by (rule total_weight_after [OF pm])
  then have nz: "total_weight_of mm ?x \<noteq> 0"
    using T S by simp
  have "mole_to_wt_fraction ?x mm
          = Inr (map (\<lambda>(k, v). (k, v * mass_of mm k / total_weight_of mm ?x)) ?x)"
    by (rule mole_to_wt_fraction_eq [OF pmx nz])
  also have "map (\<lambda>(k, v). (k, v * mass_of mm k / total_weight_of mm ?x)) ?x
          = map (\<lambda>(k, v). (k, v / sum_list (dict_values d))) d"
    unfolding tw
    using T by (auto simp: case_prod_unfold dest: positive_masses_nz [OF pm])
  finally show ?thesis
    using x by blast
qed

lemma total_moles_nonzero:
  assumes pm: "positive_masses mm d"
      and nn: "list_all (\<lambda>v. 0 \<le> v) (dict_values d)"
      and S: "sum_list (dict_values d) \<noteq> 0"
  shows "total_moles_of mm d \<noteq> 0"
proof
  assume z: "total_moles_of mm d = 0"
  have nonneg: "\<And>y. y \<in> set (map (\<lambda>(k, v). v / mass_of mm k) d) \<Longrightarrow> 0 \<le> y"
    using positive_masses_getitem [OF pm] nn
    by (force simp: list_all_iff dict_values_def)
  have "\<forall>y \<in> set (map (\<lambda>(k, v). v / mass_of mm k) d). y = 0"
    using z nonneg sum_list_nonneg_eq_0_iff [of "map (\<lambda>(k, v). v / mass_of mm k) d"]
    unfolding total_moles_of_def by blast
  then have "\<forall>(k, v) \<in> set d. v = 0"
    by (force dest: positive_masses_nz [OF pm])
  then have "sum_list (dict_values d) = 0"
    by (induction d) (auto simp: dict_values_def)
  with S show False by simp
qed

text \<open>
  Claim C4.  For a composition given as weight fractions (values that are not negative
  and add up to 1) over elements with positive molar masses, \<open>wt_to_mole_fraction\<close>
  followed by \<open>mole_to_wt_fraction\<close> with the same molar masses returns the original
  dictionary.  In exact arithmetic the result is equal to the input, hence within every
  tolerance of it; \<open>roundtrip_normalises\<close> is the general fact, for values of any sum
  other than 0.
\<close>

theorem wt_mole_wt_roundtrip:
  assumes "positive_masses mm d"
      and "list_all (\<lambda>v. 0 \<le> v) (dict_values d)"
      and "sum_list (dict_values d) = 1"
  shows "\<exists>x. wt_to_mole_fraction d mm = Inr x \<and> mole_to_wt_fraction x mm = Inr d"
proof -
  have S: "sum_list (dict_values d) \<noteq> 0" using assms(3) by simp
  have T: "total_moles_of mm d \<noteq> 0"
    by (rule total_moles_nonzero [OF assms(1) assms(2) S])
  have "map (\<lambda>(k, v). (k, v / sum_list (dict_values d))) d = d"
    by (simp add: assms(3) case_prod_unfold)
  with roundtrip_normalises [OF assms(1) T S] show ?thesis by simp
qed

theorem wt_mole_wt_roundtrip_witness:
  "positive_masses [(''A'', 2), (''B'', 4)] [(''A'', 3 / 4), (''B'', 1 / 4)]
   \<and> list_all (\<lambda>v. 0 \<le> v) (dict_values [(''A'', 3 / 4), (''B'', 1 / 4)])
   \<and> sum_list (dict_values [(''A'', 3 / 4), (''B'', 1 / 4)]) = 1
   \<and> (\<exists>x. wt_to_mole_fraction [(''A'', 3 / 4), (''B'', 1 / 4)] [(''A'', 2), (''B'', 4)] = Inr x
          \<and> mole_to_wt_fraction x [(''A'', 2), (''B'', 4)] = Inr [(''A'', 3 / 4), (''B'', 1 / 4)])"
  using wt_mole_wt_roundtrip [of "[(''A'', 2), (''B'', 4)]" "[(''A'', 3 / 4), (''B'', 1 / 4)]"]
  by (simp add: positive_masses_def dict_keys_def dict_values_def)

section \<open>Properties of the quadratic fit\<close>

lemma squared_error_nonneg: "0 \<le> squared_error f xs ys p"
  by (cases p) (auto simp: squared_error_def intro!: sum_list_nonneg)

lemma squared_error_zero:
  assumes "squared_error f xs (map g xs) (a, b, c) = 0" and "x \<in> set xs"
  shows "f x a b c = g x"
proof -
  have z: "zip xs (map g xs) = map (\<lambda>x. (x, g x)) xs"
    by (induction xs) auto
  have "(\<Sum>x \<leftarrow> xs. (f x a b c - g x) ^ 2) = 0"
    using assms(1) by (simp add: squared_error_def z comp_def)
  moreover have "\<And>y. y \<in> set (map (\<lambda>x. (f x a b c - g x) ^ 2) xs) \<Longrightarrow> 0 \<le> y"
    by auto
  ultimately have "\<forall>y \<in> set (map (\<lambda>x. (f x a b c - g x) ^ 2) xs). y = 0"
    using sum_list_nonneg_eq_0_iff [of "map (\<lambda>x. (f x a b c - g x) ^ 2) xs"] by blast
  with assms(2) have "(f x a b c - g x) ^ 2 = 0" by auto
  then show ?thesis by simp
qed

lemma squared_error_exact: "squared_error quadratic xs (map (\<lambda>x. x ^ 2) xs) (1, 0, 0) = 0"
proof -
  have z: "zip xs (map (\<lambda>x. x ^ 2) xs) = map (\<lambda>x. (x, x ^ 2)) xs"
    by (induction xs) auto
  show ?thesis
    by (simp add: squared_error_def z comp_def quadratic_def)
qed

lemma least_squares_exact: "least_squares quadratic xs (map (\<lambda>x. x ^ 2) xs) (1, 0, 0)"
  unfolding least_squares_def by (simp only: squared_error_exact squared_error_nonneg) simp

lemma three_roots:
  fixes a b c :: real
  assumes "a * x1 ^ 2 + b * x1 + c = 0" "a * x2 ^ 2 + b * x2 + c = 0"
          "a * x3 ^ 2 + b * x3 + c = 0"
      and "x1 \<noteq> x2" "x1 \<noteq> x3" "x2 \<noteq> x3"
  shows "a = 0 \<and> b = 0 \<and> c = 0"
proof -
  have "(x1 - x2) * (a * (x1 + x2) + b) = 0"
    using assms(1,2) by algebra
  then have 12: "a * (x1 + x2) + b = 0" using assms(4) by simp
  have "(x1 - x3) * (a * (x1 + x3) + b) = 0"
    using assms(1,3) by algebra
  then have 13: "a * (x1 + x3) + b = 0" using assms(5) by simp
  have "a * (x2 - x3) = 0" using 12 13 by algebra
  then have a: "a = 0" using assms(6) by simp
  then have b: "b = 0" using 12 by simp
  then have "c = 0" using a assms(1) by simp
  with a b show ?thesis by simp
qed

lemma three_distinct:
  assumes "3 \<le> card (set xs)"
  obtains x1 x2 x3 where "x1 \<in> set xs" "x2 \<in> set xs" "x3 \<in> set xs"
      "x1 \<noteq> x2" "x1 \<noteq> x3" "x2 \<noteq> x3"
proof -
  obtain T where T: "T \<subseteq> set xs" "card T = 3"
    using obtain_subset_with_card_n [OF assms] by blast
  then obtain x1 x2 x3 where "T = {x1, x2, x3}" "x1 \<noteq> x2" "x1 \<noteq> x3" "x2 \<noteq> x3"
    by (auto simp: card_3_iff)
  with T that show ?thesis by auto
qed

lemma least_squares_square_data:
  assumes ls: "least_squares quadratic xs (map (\<lambda>x. x ^ 2) xs) (a, b, c)"
      and three: "3 \<le> card (set xs)"
  shows "(a, b, c) = (1, 0, 0)"
proof -
  have "squared_error quadratic xs (map (\<lambda>x. x ^ 2) xs) (a, b, c)
          \<le> squared_error quadratic xs (map (\<lambda>x. x ^ 2) xs) (1, 0, 0)"
    using ls unfolding least_squares_def by blast
  then have "squared_error quadratic xs (map (\<lambda>x. x ^ 2) xs) (a, b, c) \<le> 0"
    by (simp only: squared_error_exact)
  then have z: "squared_error quadratic xs (map (\<lambda>x. x ^ 2) xs) (a, b, c) = 0"
    using squared_error_nonneg [of quadratic xs "map (\<lambda>x. x ^ 2) xs" "(a, b, c)"] by simp
  obtain x1 x2 x3 where x: "x1 \<in> set xs" "x2 \<in> set xs" "x3 \<in> set xs"
      "x1 \<noteq> x2" "x1 \<noteq> x3" "x2 \<noteq> x3"
    using three_distinct [OF three] by blast
  have r: "(a - 1) * x ^ 2 + b * x + c = 0" if "x \<in> set xs" for x
    using squared_error_zero [OF z that] by (simp add: quadratic_def algebra_simps)
  have "a - 1 = 0 \<and> b = 0 \<and> c = 0"
    by (rule three_roots [OF r [OF x(1)] r [OF x(2)] r [OF x(3)] x(4) x(5) x(6)])
  then show ?thesis by simp
qed

text \<open>
  Claim C5.  When \<^verbatim>\<open>curve_fit\<close> honours its contract on the data, \<open>quadratic_fit\<close>
  returns three coefficients \<open>(a, b, c)\<close> of a least-squares fit of
  \<open>a * x^2 + b * x + c\<close> to the points; and for data sampled from \<open>y = x^2\<close> at three
  or more distinct \<open>x\<close> it returns \<open>(1, 0, 0)\<close>, in exact arithmetic, hence within
  every tolerance.
\<close>

theorem quadratic_fit_least_squares:
  assumes "curve_fit_contract curve_fit quadratic x_data y_data"
  shows "(\<exists>popt. quadratic_fit curve_fit x_data y_data = Inr popt
                 \<and> least_squares quadratic x_data y_data popt)
       \<and> (y_data = map (\<lambda>x. x ^ 2) x_data \<and> 3 \<le> card (set x_data) \<longrightarrow>
            quadratic_fit curve_fit x_data y_data = Inr (1, 0, 0))"
proof -
  obtain popt pcov where fit: "curve_fit quadratic x_data y_data = Inr (popt, pcov)"
      and ls: "least_squares quadratic x_data y_data popt"
    using assms by (auto simp: curve_fit_contract_def)
  have q: "quadratic_fit curve_fit x_data y_data = Inr popt"
    by (simp add: quadratic_fit_def fit)
  obtain a b c where p: "popt = (a, b, c)" by (cases popt)
  have "popt = (1, 0, 0)" if "y_data = map (\<lambda>x. x ^ 2) x_data" "3 \<le> card (set x_data)"
    using least_squares_square_data [of x_data a b c] ls that p by simp
  with q ls show ?thesis by auto
qed

theorem quadratic_fit_least_squares_witness:
  "curve_fit_contract (\<lambda>f xs ys. Inr ((1, 0, 0), ())) quadratic [-1, 0, 1, 2] [1, 0, 1, 4]
   \<and> [1, 0, 1, 4] = map (\<lambda>x. x ^ 2) [-1, 0, 1, 2 :: real]
   \<and> 3 \<le> card (set [-1, 0, 1, 2 :: real])
   \<and> quadratic_fit (\<lambda>f xs ys. Inr ((1, 0, 0), ())) [-1, 0, 1, 2] [1, 0, 1, 4] = Inr (1, 0, 0)"
proof -
  have c: "curve_fit_contract (\<lambda>f xs ys. Inr ((1, 0, 0), ())) quadratic [-1, 0, 1, 2] [1, 0, 1, 4]"
    using least_squares_exact [of "[-1, 0, 1, 2]"]
    by (simp add: curve_fit_contract_def)
  have m: "[1, 0, 1, 4] = map (\<lambda>x. x ^ 2) [-1, 0, 1, 2 :: real]" by simp
  have k: "3 \<le> card (set [-1, 0, 1, 2 :: real])" by simp
  have "quadratic_fit (\<lambda>f xs ys. Inr ((1, 0, 0), ())) [-1, 0, 1, 2] [1, 0, 1, 4] = Inr (1, 0, 0)"
    using conjunct2 [OF quadratic_fit_least_squares [OF c]] m k by blast
  with c m k show ?thesis by blast
qed

section \<open>Properties of the lever rule in double precision\<close>

lemma rhe_cases: "round_half_even q = \<lfloor>q\<rfloor> \<or> round_half_even q = \<lfloor>q\<rfloor> + 1"
  by (simp add: round_half_even_def Let_def)

lemma rhe_of_int: "round_half_even (of_int k) = k"
  by (simp add: round_half_even_def)

lemma rhe_lower: "real_of_int (round_half_even q) \<ge> q - 1 / 2"
  unfolding round_half_even_def Let_def by (auto; linarith)

lemma rhe_upper: "real_of_int (round_half_even q) \<le> q + 1 / 2"
  unfolding round_half_even_def Let_def by (auto; linarith)

lemma rhe_mono: "q \<le> q' \<Longrightarrow> round_half_even q \<le> round_half_even q'"
proof -
  assume le: "q \<le> q'"
  have fl: "\<lfloor>q\<rfloor> \<le> \<lfloor>q'\<rfloor>" using le by (rule floor_mono)
  show ?thesis
  proof (cases "\<lfloor>q\<rfloor> = \<lfloor>q'\<rfloor>")
    case True
    then show ?thesis using le unfolding round_half_even_def Let_def by auto
  next
    case False
    then have "\<lfloor>q\<rfloor> + 1 \<le> \<lfloor>q'\<rfloor>" using fl by simp
    moreover have "round_half_even q \<le> \<lfloor>q\<rfloor> + 1" using rhe_cases [of q] by auto
    moreover have "\<lfloor>q'\<rfloor> \<le> round_half_even q'" using rhe_cases [of q'] by auto
    ultimately show ?thesis by linarith
  qed
qed


lemma powr_powi: "(2::real) powr (of_int k) = 2 powi k"
  by (simp add: powr_int power_int_def field_simps)

lemma powi_pos: "(0::real) < 2 powi k"
  by (simp add: power_int_def)

lemma powi_mono: "k \<le> l \<Longrightarrow> (2::real) powi k \<le> 2 powi l"
  by (rule power_int_increasing) simp_all

lemma powi_add1: "(2::real) powi (k + 1) = 2 * 2 powi k"
  by (simp add: power_int_add)

lemma ulp_pos: "0 < ulp x"
  by (simp add: ulp_def powi_pos)

lemma exponent_ge: "- 1022 \<le> exponent_of x"
  by (simp add: exponent_of_def)

lemma exponent_upper: "x \<noteq> 0 \<Longrightarrow> \<bar>x\<bar> < 2 powi (exponent_of x + 1)"
proof -
  assume nz: "x \<noteq> 0"
  then have pos: "0 < \<bar>x\<bar>" by simp
  define k where "k = \<lfloor>log 2 \<bar>x\<bar>\<rfloor>"
  have "\<bar>x\<bar> < 2 powr (of_int (k + 1))"
    using floor_log_eq_powr_iff [OF pos, of 2 k] k_def by simp
  then have "\<bar>x\<bar> < 2 powi (k + 1)" by (simp only: powr_powi)
  also have "\<dots> \<le> 2 powi (exponent_of x + 1)"
    by (rule powi_mono) (simp add: exponent_of_def k_def)
  finally show ?thesis .
qed

lemma exponent_lower: "x \<noteq> 0 \<Longrightarrow> - 1022 < exponent_of x \<Longrightarrow> 2 powi (exponent_of x) \<le> \<bar>x\<bar>"
proof -
  assume nz: "x \<noteq> 0" and big: "- 1022 < exponent_of x"
  then have pos: "0 < \<bar>x\<bar>" by simp
  define k where "k = \<lfloor>log 2 \<bar>x\<bar>\<rfloor>"
  have e: "exponent_of x = k" using big by (simp add: exponent_of_def k_def max_def split: if_splits)
  have "2 powr (of_int k) \<le> \<bar>x\<bar>"
    using floor_log_eq_powr_iff [OF pos, of 2 k] k_def by simp
  then show ?thesis by (simp only: powr_powi e)
qed

lemma exponent_mono: "0 < \<bar>a\<bar> \<Longrightarrow> \<bar>a\<bar> \<le> \<bar>b\<bar> \<Longrightarrow> exponent_of a \<le> exponent_of b"
proof -
  assume "0 < \<bar>a\<bar>" "\<bar>a\<bar> \<le> \<bar>b\<bar>"
  then have "log 2 \<bar>a\<bar> \<le> log 2 \<bar>b\<bar>" by simp
  then have "\<lfloor>log 2 \<bar>a\<bar>\<rfloor> \<le> \<lfloor>log 2 \<bar>b\<bar>\<rfloor>" by (rule floor_mono)
  then show ?thesis by (simp add: exponent_of_def)
qed

lemma exponent_eq:
  "x \<noteq> 0 \<Longrightarrow> 2 powi e \<le> \<bar>x\<bar> \<Longrightarrow> \<bar>x\<bar> < 2 powi (e + 1) \<Longrightarrow> exponent_of x = max e (- 1022)"
proof -
  assume nz: "x \<noteq> 0" and lo: "2 powi e \<le> \<bar>x\<bar>" and hi: "\<bar>x\<bar> < 2 powi (e + 1)"
  then have pos: "0 < \<bar>x\<bar>" by simp
  have "\<lfloor>log 2 \<bar>x\<bar>\<rfloor> = e"
    using floor_log_eq_powr_iff [OF pos, of 2 e] lo hi powr_powi [of e] powr_powi [of "e + 1"]
    by simp
  then show ?thesis by (simp add: exponent_of_def)
qed

lemma magnitude_nonneg: "0 \<le> rounded_magnitude x"
proof -
  have "0 \<le> \<bar>x\<bar> / ulp x" using ulp_pos [of x] by simp
  then have "round_half_even 0 \<le> round_half_even (\<bar>x\<bar> / ulp x)" by (rule rhe_mono)
  then have "0 \<le> round_half_even (\<bar>x\<bar> / ulp x)" using rhe_of_int [of 0] by simp
  then show ?thesis using ulp_pos [of x] by (simp add: rounded_magnitude_def)
qed

lemma magnitude_upper: "x \<noteq> 0 \<Longrightarrow> rounded_magnitude x \<le> 2 powi (exponent_of x + 1)"
proof -
  assume nz: "x \<noteq> 0"
  have u: "ulp x * 2 ^ 53 = 2 powi (exponent_of x + 1)"
    by (simp add: ulp_def power_int_diff power_int_add)
  have "\<bar>x\<bar> / ulp x \<le> 2 ^ 53"
    using exponent_upper [OF nz] u ulp_pos [of x] by (simp add: field_simps)
  then have "round_half_even (\<bar>x\<bar> / ulp x) \<le> round_half_even (of_int (2 ^ 53))"
    by (intro rhe_mono) simp
  then have "round_half_even (\<bar>x\<bar> / ulp x) \<le> 2 ^ 53" by (simp only: rhe_of_int)
  then have "real_of_int (round_half_even (\<bar>x\<bar> / ulp x)) \<le> 2 ^ 53"
    by (metis of_int_le_iff of_int_numeral of_int_power)
  then have "rounded_magnitude x \<le> 2 ^ 53 * ulp x"
    unfolding rounded_magnitude_def using ulp_pos [of x] by (intro mult_right_mono) simp_all
  then show ?thesis using u by (simp add: mult.commute)
qed

lemma magnitude_lower:
  "x \<noteq> 0 \<Longrightarrow> - 1022 < exponent_of x \<Longrightarrow> 2 powi (exponent_of x) \<le> rounded_magnitude x"
proof -
  assume nz: "x \<noteq> 0" and big: "- 1022 < exponent_of x"
  have u: "ulp x * 2 ^ 52 = 2 powi (exponent_of x)"
    by (simp add: ulp_def power_int_diff)
  have "2 ^ 52 \<le> \<bar>x\<bar> / ulp x"
    using exponent_lower [OF nz big] u ulp_pos [of x] by (simp add: field_simps)
  then have "round_half_even (of_int (2 ^ 52)) \<le> round_half_even (\<bar>x\<bar> / ulp x)"
    by (intro rhe_mono) simp
  then have "2 ^ 52 \<le> round_half_even (\<bar>x\<bar> / ulp x)" by (simp only: rhe_of_int)
  then have "2 ^ 52 \<le> real_of_int (round_half_even (\<bar>x\<bar> / ulp x))"
    by (metis of_int_le_iff of_int_numeral of_int_power)
  then have "2 ^ 52 * ulp x \<le> rounded_magnitude x"
    unfolding rounded_magnitude_def using ulp_pos [of x] by (intro mult_right_mono) simp_all
  then show ?thesis using u by (simp add: mult.commute)
qed


lemma magnitude_mono:
  assumes "a \<noteq> 0" and "\<bar>a\<bar> \<le> \<bar>b\<bar>"
  shows "rounded_magnitude a \<le> rounded_magnitude b"
proof -
  have nzb: "b \<noteq> 0" using assms by auto
  have e: "exponent_of a \<le> exponent_of b"
    using assms by (intro exponent_mono) auto
  show ?thesis
  proof (cases "exponent_of a = exponent_of b")
    case True
    then have u: "ulp a = ulp b" by (simp add: ulp_def)
    have "\<bar>a\<bar> / ulp b \<le> \<bar>b\<bar> / ulp b"
      using assms(2) ulp_pos [of b] by (simp add: divide_right_mono)
    then have "round_half_even (\<bar>a\<bar> / ulp b) \<le> round_half_even (\<bar>b\<bar> / ulp b)"
      by (rule rhe_mono)
    then show ?thesis
      unfolding rounded_magnitude_def u using ulp_pos [of b]
      by (intro mult_right_mono) simp_all
  next
    case False
    then have lt: "exponent_of a + 1 \<le> exponent_of b" using e by simp
    then have big: "- 1022 < exponent_of b" using exponent_ge [of a] by simp
    have "rounded_magnitude a \<le> 2 powi (exponent_of a + 1)"
      by (rule magnitude_upper [OF assms(1)])
    also have "\<dots> \<le> 2 powi (exponent_of b)" using lt by (rule powi_mono)
    also have "\<dots> \<le> rounded_magnitude b" by (rule magnitude_lower [OF nzb big])
    finally show ?thesis .
  qed
qed


lemma powi_nonneg_int: "0 \<le> j \<Longrightarrow> (2::real) powi j = of_int (2 ^ nat j)"
  by (simp add: power_int_def)

lemma exponent_powi: "exponent_of (2 powi k) = max k (- 1022)"
proof -
  have a: "\<bar>2 powi k :: real\<bar> = 2 powi k" using powi_pos [of k] by simp
  have "(2::real) powi k < 2 powi (k + 1)" using powi_pos [of k] by (simp only: powi_add1)
  then show ?thesis
    using exponent_eq [of "2 powi k" k] powi_pos [of k] by (simp only: a)
qed

lemma magnitude_powi:
  assumes "- 1074 \<le> k"
  shows "rounded_magnitude (2 powi k) = 2 powi k"
proof -
  define e where "e = max k (- 1022)"
  define j where "j = k - (e - 52)"
  have j: "0 \<le> j" using assms by (simp add: j_def e_def max_def)
  have a: "\<bar>2 powi k :: real\<bar> = 2 powi k" using powi_pos [of k] by simp
  have u: "ulp (2 powi k) = 2 powi (e - 52)" by (simp only: ulp_def exponent_powi e_def)
  have "(2::real) powi k / 2 powi (e - 52) = 2 powi j"
    unfolding j_def by (rule power_int_diff [symmetric]) simp
  also have "\<dots> = of_int (2 ^ nat j)" by (rule powi_nonneg_int [OF j])
  finally have q: "\<bar>2 powi k :: real\<bar> / ulp (2 powi k) = of_int (2 ^ nat j)" by (simp only: a u)
  have "rounded_magnitude (2 powi k)
          = of_int (round_half_even (of_int (2 ^ nat j))) * ulp (2 powi k)"
    by (simp only: rounded_magnitude_def q)
  also have "\<dots> = of_int (2 ^ nat j) * 2 powi (e - 52)"
    by (simp only: rhe_of_int u)
  also have "\<dots> = 2 powi j * 2 powi (e - 52)" by (simp only: powi_nonneg_int [OF j])
  also have "\<dots> = 2 powi (j + (e - 52))" by (simp add: power_int_add)
  also have "j + (e - 52) = k" by (simp add: j_def)
  finally show ?thesis .
qed

lemma least_double_pos: "0 < least_double"
  unfolding least_double_def by (rule powi_pos)

lemma magnitude_least: "rounded_magnitude least_double = least_double"
  unfolding least_double_def by (rule magnitude_powi) simp

lemma magnitude_one: "rounded_magnitude 1 = 1"
  using magnitude_powi [of 0] by simp

lemma magnitude_ge_one: "1 \<le> \<bar>x\<bar> \<Longrightarrow> 1 \<le> rounded_magnitude x"
  using magnitude_mono [of 1 x] by (simp add: magnitude_one)

lemma magnitude_pos: "least_double \<le> \<bar>x\<bar> \<Longrightarrow> 0 < rounded_magnitude x"
proof -
  assume le: "least_double \<le> \<bar>x\<bar>"
  have nz: "least_double \<noteq> 0" using least_double_pos by simp
  have "\<bar>least_double\<bar> \<le> \<bar>x\<bar>" using le least_double_pos by simp
  then have "rounded_magnitude least_double \<le> rounded_magnitude x"
    by (rule magnitude_mono [OF nz])
  then have "least_double \<le> rounded_magnitude x" by (simp only: magnitude_least)
  then show ?thesis using least_double_pos by (rule less_le_trans [rotated])
qed

lemma is_double_multiple: "is_double x \<Longrightarrow> \<exists>k :: int. x = of_int k * least_double"
proof -
  assume "is_double x"
  then obtain m e :: int where x: "x = of_int m * 2 powi e" and e: "- 1074 \<le> e"
    by (auto simp: is_double_def)
  define j where "j = e - (- 1074)"
  have j: "0 \<le> j" using e by (simp add: j_def)
  have "(2::real) powi e = 2 powi (j + (- 1074))" by (simp add: j_def)
  also have "\<dots> = 2 powi j * 2 powi (- 1074)" by (rule power_int_add) simp
  also have "\<dots> = of_int (2 ^ nat j) * least_double"
    by (simp only: powi_nonneg_int [OF j] least_double_def)
  finally have "x = of_int m * (of_int (2 ^ nat j) * least_double)" by (simp only: x)
  then have "x = of_int (m * 2 ^ nat j) * least_double" by (simp only: of_int_mult mult.assoc)
  then show ?thesis by blast
qed

lemma doubles_apart:
  assumes "is_double a" and "is_double b" and "a \<noteq> b"
  shows "least_double \<le> \<bar>a - b\<bar>"
proof -
  obtain k l :: int where a: "a = of_int k * least_double" and b: "b = of_int l * least_double"
    using is_double_multiple assms(1,2) by blast
  have kl: "k \<noteq> l" using assms(3) a b by auto
  have "a - b = of_int (k - l) * least_double" by (simp add: a b algebra_simps)
  then have "\<bar>a - b\<bar> = \<bar>of_int (k - l)\<bar> * least_double"
    using least_double_pos by (simp add: abs_mult)
  moreover have "(1::int) \<le> \<bar>k - l\<bar>" using kl by simp
  then have "(1::real) \<le> \<bar>of_int (k - l)\<bar>"
    by (metis of_int_1 of_int_abs of_int_le_iff)
  ultimately show ?thesis using least_double_pos by simp
qed


lemma round_pos_cases:
  "0 < x \<Longrightarrow> round_double x = PInf \<or> round_double x = Finite (rounded_magnitude x)"
  by (simp add: round_double_def)

lemma round_neg_cases:
  "x < 0 \<Longrightarrow> round_double x = NInf \<or> round_double x = Finite (- rounded_magnitude x)"
  by (simp add: round_double_def)

lemma round_ge_one: "1 \<le> x \<Longrightarrow> float_le (Finite 1) (round_double x)"
  using round_pos_cases [of x] magnitude_ge_one [of x] by auto

lemma round_nonpos: "x \<le> 0 \<Longrightarrow> float_le (round_double x) (Finite 0)"
  using round_neg_cases [of x] magnitude_nonneg [of x]
  by (cases "x = 0") (auto simp: round_double_def)

lemma left_from_right_low:
  "float_le fraction_right (Finite 0) \<Longrightarrow> float_le (Finite 1) (float_sub (Finite 1) fraction_right)"
  by (cases fraction_right) (auto intro: round_ge_one)

lemma left_from_right_high:
  "float_le (Finite 1) fraction_right \<Longrightarrow> float_le (float_sub (Finite 1) fraction_right) (Finite 0)"
  by (cases fraction_right) (auto intro: round_nonpos)

lemma quotient_low_pos:
  assumes "x1 < 0" and "0 < d"
  shows "\<exists>fr. float_truediv (round_double x1) (Finite d) = Inr fr \<and> float_le fr (Finite 0)"
proof -
  from round_neg_cases [OF assms(1)] show ?thesis
  proof
    assume "round_double x1 = NInf"
    then show ?thesis using assms(2) by simp
  next
    assume r: "round_double x1 = Finite (- rounded_magnitude x1)"
    have "- rounded_magnitude x1 / d \<le> 0"
      using magnitude_nonneg [of x1] assms(2) by (simp add: divide_le_0_iff)
    then show ?thesis using assms(2) r by (simp add: round_nonpos)
  qed
qed

lemma quotient_low_neg:
  assumes "0 < x1" and "d < 0"
  shows "\<exists>fr. float_truediv (round_double x1) (Finite d) = Inr fr \<and> float_le fr (Finite 0)"
proof -
  from round_pos_cases [OF assms(1)] show ?thesis
  proof
    assume "round_double x1 = PInf"
    then show ?thesis using assms(2) by simp
  next
    assume r: "round_double x1 = Finite (rounded_magnitude x1)"
    have "rounded_magnitude x1 / d \<le> 0"
      using magnitude_nonneg [of x1] assms(2) by (simp add: divide_le_0_iff)
    then show ?thesis using assms(2) r by (simp add: round_nonpos)
  qed
qed

lemma quotient_high_pos:
  assumes "0 < x2" and "x2 \<le> x1" and "0 < rounded_magnitude x2"
  shows "\<exists>fr. float_truediv (round_double x1) (Finite (rounded_magnitude x2)) = Inr fr
              \<and> float_le (Finite 1) fr"
proof -
  have x1: "0 < x1" using assms by simp
  from round_pos_cases [OF x1] show ?thesis
  proof
    assume "round_double x1 = PInf"
    then show ?thesis using assms(3) by simp
  next
    assume r: "round_double x1 = Finite (rounded_magnitude x1)"
    have "rounded_magnitude x2 \<le> rounded_magnitude x1"
      using assms by (intro magnitude_mono) auto
    then have "1 \<le> rounded_magnitude x1 / rounded_magnitude x2"
      using assms(3) by simp
    then show ?thesis using assms(3) r by (simp add: round_ge_one)
  qed
qed

lemma quotient_high_neg:
  assumes "x2 < 0" and "x1 \<le> x2" and "0 < rounded_magnitude x2"
  shows "\<exists>fr. float_truediv (round_double x1) (Finite (- rounded_magnitude x2)) = Inr fr
              \<and> float_le (Finite 1) fr"
proof -
  have x1: "x1 < 0" using assms by simp
  from round_neg_cases [OF x1] show ?thesis
  proof
    assume "round_double x1 = NInf"
    then show ?thesis using assms(3) by simp
  next
    assume r: "round_double x1 = Finite (- rounded_magnitude x1)"
    have "rounded_magnitude x2 \<le> rounded_magnitude x1"
      using assms by (intro magnitude_mono) auto
    then have "1 \<le> rounded_magnitude x1 / rounded_magnitude x2"
      using assms(3) by simp
    then show ?thesis using assms(3) r by (simp add: round_ge_one)
  qed
qed


lemma lever_rule_double_unfold:
  assumes "left_comp \<noteq> right_comp"
      and "float_sub (Finite right_comp) (Finite left_comp) = Finite d"
      and "float_truediv (round_double (overall_comp - left_comp)) (Finite d) = Inr fr"
  shows "lever_rule_double (Finite overall_comp) (Finite left_comp) (Finite right_comp)
           = Inr (float_sub (Finite 1) fr, fr)"
  using assms by (simp add: lever_rule_double_def float_eq_def)

lemma fraction_right_outside:
  assumes dl: "is_double left_comp" and dr: "is_double right_comp"
      and ne: "left_comp \<noteq> right_comp"
      and out: "overall_comp < min left_comp right_comp \<or> max left_comp right_comp < overall_comp"
      and fin: "float_sub (Finite right_comp) (Finite left_comp) = Finite d"
  shows "\<exists>fr. float_truediv (round_double (overall_comp - left_comp)) (Finite d) = Inr fr
              \<and> (float_le fr (Finite 0) \<or> float_le (Finite 1) fr)"
proof -
  let ?x1 = "overall_comp - left_comp"
  let ?x2 = "right_comp - left_comp"
  have r: "round_double ?x2 = Finite d" using fin by simp
  have "least_double \<le> \<bar>?x2\<bar>" using doubles_apart [OF dr dl] ne by simp
  then have m: "0 < rounded_magnitude ?x2" by (rule magnitude_pos)
  show ?thesis
  proof (cases "left_comp < right_comp")
    case True
    then have x2: "0 < ?x2" by simp
    have d: "d = rounded_magnitude ?x2" using round_pos_cases [OF x2] r by auto
    show ?thesis
    proof (cases "overall_comp < left_comp")
      case True
      then have x1: "?x1 < 0" by simp
      have dpos: "0 < d" using m d by simp
      from quotient_low_pos [OF x1 dpos] show ?thesis by blast
    next
      case False
      then have le: "?x2 \<le> ?x1" using out \<open>left_comp < right_comp\<close> by auto
      from quotient_high_pos [OF x2 le m] show ?thesis unfolding d by blast
    qed
  next
    case False
    then have lt: "right_comp < left_comp" using ne by simp
    then have x2: "?x2 < 0" by simp
    have d: "d = - rounded_magnitude ?x2" using round_neg_cases [OF x2] r by auto
    show ?thesis
    proof (cases "left_comp < overall_comp")
      case True
      then have x1: "0 < ?x1" by simp
      have dneg: "d < 0" using m d by simp
      from quotient_low_neg [OF x1 dneg] show ?thesis by blast
    next
      case False
      then have le: "?x1 \<le> ?x2" using out lt by auto
      from quotient_high_neg [OF x2 le m] show ?thesis unfolding d by blast
    qed
  qed
qed

text \<open>
  Claim C9, as the code has it.  \<open>lever_rule\<close> checks neither the order nor the range
  of its arguments.  For doubles \<open>left \<noteq> right\<close> whose difference \<open>right - left\<close> does
  not overflow, and \<open>overall\<close> strictly outside the closed interval bounded by \<open>left\<close>
  and \<open>right\<close> (in either order), no error is raised, \<open>fraction_left\<close> is
  \<open>1.0 - fraction_right\<close> rounded to a double, and one of the two fractions is at most
  0 while the other is at least 1 (either may be infinite).
\<close>

theorem lever_rule_double_outside:
  assumes "is_double left_comp" and "is_double right_comp"
      and "left_comp \<noteq> right_comp"
      and "overall_comp < min left_comp right_comp \<or> max left_comp right_comp < overall_comp"
      and "float_sub (Finite right_comp) (Finite left_comp) = Finite d"
  shows "\<exists>fraction_left fraction_right.
           lever_rule_double (Finite overall_comp) (Finite left_comp) (Finite right_comp)
             = Inr (fraction_left, fraction_right)
         \<and> fraction_left = float_sub (Finite 1) fraction_right
         \<and> ((float_le fraction_right (Finite 0) \<and> float_le (Finite 1) fraction_left)
              \<or> (float_le (Finite 1) fraction_right \<and> float_le fraction_left (Finite 0)))"
proof -
  obtain fr where q: "float_truediv (round_double (overall_comp - left_comp)) (Finite d) = Inr fr"
      and s: "float_le fr (Finite 0) \<or> float_le (Finite 1) fr"
    using fraction_right_outside [OF assms] by blast
  have l: "lever_rule_double (Finite overall_comp) (Finite left_comp) (Finite right_comp)
             = Inr (float_sub (Finite 1) fr, fr)"
    by (rule lever_rule_double_unfold [OF assms(3) assms(5) q])
  from s show ?thesis
  proof
    assume "float_le fr (Finite 0)"
    then show ?thesis using l left_from_right_low [of fr] by blast
  next
    assume "float_le (Finite 1) fr"
    then show ?thesis using l left_from_right_high [of fr] by blast
  qed
qed


lemma powi_strict_mono: "k < l \<Longrightarrow> (2::real) powi k < 2 powi l"
  by (rule power_int_strict_increasing) simp_all

lemma exponent_le:
  assumes "x \<noteq> 0" and "\<bar>x\<bar> < 2 powi (k + 1)" and "- 1022 \<le> k"
  shows "exponent_of x \<le> k"
proof (rule ccontr)
  assume "\<not> exponent_of x \<le> k"
  then have big: "k + 1 \<le> exponent_of x" by simp
  then have "- 1022 < exponent_of x" using assms(3) by simp
  then have "2 powi (exponent_of x) \<le> \<bar>x\<bar>" by (rule exponent_lower [OF assms(1)])
  moreover have "(2::real) powi (k + 1) \<le> 2 powi (exponent_of x)" using big by (rule powi_mono)
  ultimately show False using assms(2) by simp
qed

lemma magnitude_exact:
  assumes "x = of_int m * 2 powi e" and "\<bar>m\<bar> < 2 ^ 53" and "- 1074 \<le> e" and "x \<noteq> 0"
  shows "rounded_magnitude x = \<bar>x\<bar>"
proof -
  define j where "j = e - (exponent_of x - 52)"
  have "real_of_int \<bar>m\<bar> < 2 ^ 53"
    using assms(2) by (metis of_int_less_iff of_int_numeral of_int_power)
  then have "\<bar>x\<bar> < 2 ^ 53 * 2 powi e"
    using powi_pos [of e] by (simp add: assms(1) abs_mult)
  also have "(2::real) ^ 53 * 2 powi e = 2 powi (e + 53)"
    by (simp add: power_int_add)
  finally have lt: "\<bar>x\<bar> < 2 powi (e + 53)" .
  define K where "K = max (e + 52) (- 1022)"
  have "(2::real) powi (e + 53) \<le> 2 powi (K + 1)"
    by (rule powi_mono) (simp add: K_def)
  with lt have "\<bar>x\<bar> < 2 powi (K + 1)" by simp
  then have "exponent_of x \<le> K"
    by (rule exponent_le [OF assms(4)]) (simp add: K_def)
  then have j: "0 \<le> j" using assms(3) by (simp add: j_def K_def max_def split: if_splits)
  have "\<bar>x\<bar> = of_int \<bar>m\<bar> * 2 powi e"
    using powi_pos [of e] by (simp add: assms(1) abs_mult)
  also have "(2::real) powi e = 2 powi (j + (exponent_of x - 52))" by (simp add: j_def)
  also have "\<dots> = 2 powi j * ulp x" unfolding ulp_def by (rule power_int_add) simp
  also have "(2::real) powi j = of_int (2 ^ nat j)" by (rule powi_nonneg_int [OF j])
  finally have a: "\<bar>x\<bar> = of_int (\<bar>m\<bar> * 2 ^ nat j) * ulp x"
    by (simp only: of_int_mult mult.assoc)
  then have "\<bar>x\<bar> / ulp x = of_int (\<bar>m\<bar> * 2 ^ nat j)" using ulp_pos [of x] by simp
  then have "rounded_magnitude x = of_int (\<bar>m\<bar> * 2 ^ nat j) * ulp x"
    by (simp only: rounded_magnitude_def rhe_of_int)
  then show ?thesis by (simp only: a [symmetric])
qed

lemma round_double_exact:
  assumes "is_double x"
  shows "round_double x = Finite x"
proof (cases "x = 0")
  case True
  then show ?thesis by (simp add: round_double_def)
next
  case False
  obtain m e :: int where x: "x = of_int m * 2 powi e" and m: "\<bar>m\<bar> < 2 ^ 53"
      and e: "- 1074 \<le> e" "e \<le> 971"
    using assms by (auto simp: is_double_def)
  have mag: "rounded_magnitude x = \<bar>x\<bar>" by (rule magnitude_exact [OF x m e(1) False])
  have "real_of_int \<bar>m\<bar> < 2 ^ 53"
    using m by (metis of_int_less_iff of_int_numeral of_int_power)
  then have "\<bar>x\<bar> < 2 ^ 53 * 2 powi e"
    using powi_pos [of e] by (simp add: x abs_mult)
  also have "(2::real) ^ 53 * 2 powi e = 2 powi (e + 53)"
    by (simp add: power_int_add)
  also have "\<dots> \<le> overflow_threshold"
    unfolding overflow_threshold_def using e(2) by (intro powi_mono) simp
  finally have "\<not> overflow_threshold \<le> rounded_magnitude x" by (simp only: mag)
  then show ?thesis using False mag by (simp add: round_double_def)
qed


lemma round_double_eval:
  assumes "x \<noteq> 0" and "2 powi e \<le> \<bar>x\<bar>" and "\<bar>x\<bar> < 2 powi (e + 1)" and "- 1022 \<le> e"
      and "round_half_even (\<bar>x\<bar> / 2 powi (e - 52)) = n"
      and "of_int n * 2 powi (e - 52) < (2::real) powi 1024"
  shows "round_double x
           = Finite (if 0 < x then of_int n * 2 powi (e - 52) else - (of_int n * 2 powi (e - 52)))"
proof -
  have "exponent_of x = e" using exponent_eq [OF assms(1,2,3)] assms(4) by simp
  then have "rounded_magnitude x = of_int n * 2 powi (e - 52)"
    by (simp only: rounded_magnitude_def ulp_def assms(5))
  then show ?thesis
    using assms(1,6) by (simp add: round_double_def overflow_threshold_def)
qed

lemma powi_1024_big: "x < 2 ^ 100 \<Longrightarrow> x < (2::real) powi 1024"
proof -
  assume "x < 2 ^ 100"
  also have "(2::real) ^ 100 = 2 powi 100" by (simp add: power_int_def)
  also have "\<dots> \<le> 2 powi 1024" by (rule powi_mono) simp
  finally show ?thesis .
qed

lemma round_one_plus: "round_double (1 + 1 / 2 ^ 70) = Finite 1"
proof -
  have r: "round_half_even (\<bar>1 + 1 / 2 ^ 70\<bar> / 2 powi (0 - 52)) = 2 ^ 52"
    by (simp add: round_half_even_def Let_def power_int_minus)
  have "round_double (1 + 1 / 2 ^ 70)
          = Finite (if (0::real) < 1 + 1 / 2 ^ 70 then of_int (2 ^ 52) * 2 powi (0 - 52)
                    else - (of_int (2 ^ 52) * 2 powi (0 - 52)))"
    by (rule round_double_eval [OF _ _ _ _ r]) (simp_all add: power_int_minus powi_1024_big)
  then show ?thesis by (simp add: power_int_minus)
qed

lemma round_big_minus: "round_double (1 - 150 * 2 ^ 50) = Finite (- (150 * 2 ^ 50))"
proof -
  have r: "round_half_even (\<bar>1 - 150 * 2 ^ 50\<bar> / 2 powi (57 - 52)) = 150 * 2 ^ 45"
    by (simp add: round_half_even_def Let_def)
  have "round_double (1 - 150 * 2 ^ 50)
          = Finite (if (0::real) < 1 - 150 * 2 ^ 50 then of_int (150 * 2 ^ 45) * 2 powi (57 - 52)
                    else - (of_int (150 * 2 ^ 45) * 2 powi (57 - 52)))"
    by (rule round_double_eval [OF _ _ _ _ r]) (simp_all add: powi_1024_big)
  then show ?thesis by simp
qed

lemma is_double_examples:
  "is_double 0" "is_double 1" "is_double (- (1 / 2 ^ 70))" "is_double 150"
  "is_double (1 / 2 ^ 50)" "is_double (150 * 2 ^ 50)"
  "is_double 4" "is_double 6" "is_double (3 / 2)" "is_double (- (1 / 2))"
proof -
  show "is_double 4" unfolding is_double_def by (rule exI [of _ 4], rule exI [of _ 0]) simp
  show "is_double 6" unfolding is_double_def by (rule exI [of _ 6], rule exI [of _ 0]) simp
  show "is_double (3 / 2)"
    unfolding is_double_def by (rule exI [of _ 3], rule exI [of _ "- 1"]) (simp add: power_int_minus)
  show "is_double (- (1 / 2))"
    unfolding is_double_def by (rule exI [of _ "- 1"], rule exI [of _ "- 1"]) (simp add: power_int_minus)
  show "is_double 0" unfolding is_double_def by (rule exI [of _ 0], rule exI [of _ 0]) simp
  show "is_double 1" unfolding is_double_def by (rule exI [of _ 1], rule exI [of _ 0]) simp
  show "is_double (- (1 / 2 ^ 70))"
    unfolding is_double_def by (rule exI [of _ "- 1"], rule exI [of _ "- 70"]) (simp add: power_int_minus)
  show "is_double 150" unfolding is_double_def by (rule exI [of _ 150], rule exI [of _ 0]) simp
  show "is_double (1 / 2 ^ 50)"
    unfolding is_double_def by (rule exI [of _ 1], rule exI [of _ "- 50"]) (simp add: power_int_minus)
  show "is_double (150 * 2 ^ 50)"
    unfolding is_double_def by (rule exI [of _ 150], rule exI [of _ 50]) simp
qed


text \<open>
  As stated, claim C9 says that one fraction is negative, the other exceeds 1 and their
  sum is 1.  On doubles it fails: \<open>lever_rule(-2^-70, 0.0, 1.0)\<close> returns
  \<open>(1.0, -2^-70)\<close>, where no fraction exceeds 1 (\<open>1 + 2^-70\<close> rounds to \<open>1.0\<close>), and
  \<open>lever_rule(150.0, 0.0, 2^-50)\<close> returns \<open>(-150 * 2^50, 150 * 2^50)\<close>, of sum 0
  (\<open>1 - 150 * 2^50\<close> rounds to \<open>-150 * 2^50\<close>).
\<close>

theorem lever_rule_outside_counterexample:
  "lever_rule_double (Finite (- (1 / 2 ^ 70))) (Finite 0) (Finite 1)
     = Inr (Finite 1, Finite (- (1 / 2 ^ 70)))
   \<and> lever_rule_double (Finite 150) (Finite 0) (Finite (1 / 2 ^ 50))
     = Inr (Finite (- (150 * 2 ^ 50)), Finite (150 * 2 ^ 50))
   \<and> - (150 * 2 ^ 50) + 150 * 2 ^ 50 \<noteq> (1::real)"
  using round_double_exact [OF is_double_examples(2)]
        round_double_exact [OF is_double_examples(3)]
        round_double_exact [OF is_double_examples(4)]
        round_double_exact [OF is_double_examples(5)]
        round_double_exact [OF is_double_examples(6)]
        round_one_plus round_big_minus
  by (simp add: lever_rule_double_def float_eq_def)

theorem lever_rule_double_outside_witness:
  "is_double 0 \<and> is_double 4 \<and> (0::real) \<noteq> 4
   \<and> ((6::real) < min 0 4 \<or> max 0 4 < (6::real))
   \<and> float_sub (Finite 4) (Finite 0) = Finite 4
   \<and> lever_rule_double (Finite 6) (Finite 0) (Finite 4) = Inr (Finite (- (1 / 2)), Finite (3 / 2))
   \<and> float_le (Finite 1) (Finite (3 / 2)) \<and> float_le (Finite (- (1 / 2))) (Finite 0)"
  using lever_rule_double_outside [of 0 4 6 4]
        is_double_examples(1) is_double_examples(7)
        round_double_exact [OF is_double_examples(7)]
        round_double_exact [OF is_double_examples(8)]
        round_double_exact [OF is_double_examples(9)]
        round_double_exact [OF is_double_examples(10)]
  by (simp add: lever_rule_double_def float_eq_def)

section \<open>Properties of the database loading\<close>

lemma load_database_present:
  "files fs ''fe_c.tdb'' = Some contents \<Longrightarrow> load_database parse fs = (fs, parse contents)"
  by (simp add: load_database_def os_path_exists_def Database_def)

lemma load_database_absent:
  "files fs ''fe_c.tdb'' = None \<Longrightarrow>
     load_database parse fs =
       (fs\<lparr>files := (files fs)(''fe_c.tdb'' \<mapsto> create_simple_fec_database),
           writes := writes fs @ [(''fe_c.tdb'', create_simple_fec_database)]\<rparr>,
        parse create_simple_fec_database)"
  by (simp add: load_database_def os_path_exists_def Database_def write_file_def Let_def)

lemma load_fecrc_database_present:
  "files fs ''fe_cr_c.tdb'' = Some contents \<Longrightarrow>
     load_fecrc_database parse fs = (fs, parse contents)"
  by (simp add: load_fecrc_database_def os_path_exists_def Database_def)

lemma load_fecrc_database_absent:
  "files fs ''fe_cr_c.tdb'' = None \<Longrightarrow>
     load_fecrc_database parse fs =
       (fs\<lparr>files := (files fs)(''fe_cr_c.tdb'' \<mapsto> create_fecrc_database),
           writes := writes fs @ [(''fe_cr_c.tdb'', create_fecrc_database)]\<rparr>,
        parse create_fecrc_database)"
  by (simp add: load_fecrc_database_def os_path_exists_def Database_def write_file_def Let_def)

lemma load_database_again:
  "load_database parse (fst (load_database parse fs)) = load_database parse fs"
  by (cases "files fs ''fe_c.tdb''") (simp_all add: load_database_present load_database_absent)

lemma load_fecrc_database_again:
  "load_fecrc_database parse (fst (load_fecrc_database parse fs)) = load_fecrc_database parse fs"
  by (cases "files fs ''fe_cr_c.tdb''")
     (simp_all add: load_fecrc_database_present load_fecrc_database_absent)

lemma load_database_returns:
  "snd (load_database parse fs) = Database parse (fst (load_database parse fs)) ''fe_c.tdb''"
  by (cases "files fs ''fe_c.tdb''")
     (simp_all add: load_database_present load_database_absent Database_def)

lemma load_fecrc_database_returns:
  "snd (load_fecrc_database parse fs)
     = Database parse (fst (load_fecrc_database parse fs)) ''fe_cr_c.tdb''"
  by (cases "files fs ''fe_cr_c.tdb''")
     (simp_all add: load_fecrc_database_present load_fecrc_database_absent Database_def)

text \<open>
  Claim C8.  On every run of the database-loading step (\<open>load_database\<close> for
  \<^verbatim>\<open>fe_c.tdb\<close>, \<open>load_fecrc_database\<close> for \<^verbatim>\<open>fe_cr_c.tdb\<close>): if the file exists, the
  file system is left as it was (no write is performed) and the file is loaded; if it
  does not exist, exactly one write is performed, of the built-in database text to that
  path, and the file is then loaded, and a further run finds the file and writes
  nothing.  In both cases what is returned is \<open>Database\<close> of the file as it then
  stands.
\<close>

theorem load_database_frame:
  "(files fs ''fe_c.tdb'' = Some contents \<longrightarrow>
      load_database parse fs = (fs, parse contents))
   \<and> (files fs ''fe_c.tdb'' = None \<longrightarrow>
      files (fst (load_database parse fs))
        = (files fs)(''fe_c.tdb'' \<mapsto> create_simple_fec_database)
      \<and> writes (fst (load_database parse fs))
        = writes fs @ [(''fe_c.tdb'', create_simple_fec_database)]
      \<and> snd (load_database parse fs) = parse create_simple_fec_database
      \<and> load_database parse (fst (load_database parse fs)) = load_database parse fs)
   \<and> snd (load_database parse fs)
        = Database parse (fst (load_database parse fs)) ''fe_c.tdb''
   \<and> (files fs ''fe_cr_c.tdb'' = Some contents' \<longrightarrow>
      load_fecrc_database parse fs = (fs, parse contents'))
   \<and> (files fs ''fe_cr_c.tdb'' = None \<longrightarrow>
      files (fst (load_fecrc_database parse fs))
        = (files fs)(''fe_cr_c.tdb'' \<mapsto> create_fecrc_database)
      \<and> writes (fst (load_fecrc_database parse fs))
        = writes fs @ [(''fe_cr_c.tdb'', create_fecrc_database)]
      \<and> snd (load_fecrc_database parse fs) = parse create_fecrc_database
      \<and> load_fecrc_database parse (fst (load_fecrc_database parse fs))
        = load_fecrc_database parse fs)
   \<and> snd (load_fecrc_database parse fs)
        = Database parse (fst (load_fecrc_database parse fs)) ''fe_cr_c.tdb''"
  using load_database_again [of parse fs] load_fecrc_database_again [of parse fs]
        load_database_returns [of parse fs] load_fecrc_database_returns [of parse fs]
  by (simp add: load_database_present load_database_absent
                load_fecrc_database_present load_fecrc_database_absent)

theorem load_database_frame_witness:
  "load_database (\<lambda>t. Inr (length t))
     \<lparr>files = [''fe_c.tdb'' \<mapsto> ''old''], writes = []\<rparr>
     = (\<lparr>files = [''fe_c.tdb'' \<mapsto> ''old''], writes = []\<rparr>, Inr 3)
   \<and> writes (fst (load_fecrc_database (\<lambda>t. Inr (length t))
                   \<lparr>files = [''fe_c.tdb'' \<mapsto> ''old''], writes = []\<rparr>))
     = [(''fe_cr_c.tdb'', create_fecrc_database)]
   \<and> load_fecrc_database (\<lambda>t. Inr (length t))
     \<lparr>files = [''fe_cr_c.tdb'' \<mapsto> ''older''], writes = []\<rparr>
     = (\<lparr>files = [''fe_cr_c.tdb'' \<mapsto> ''older''], writes = []\<rparr>, Inr 5)
   \<and> writes (fst (load_database (\<lambda>t. Inr (length t))
                   \<lparr>files = [''fe_cr_c.tdb'' \<mapsto> ''older''], writes = []\<rparr>))
     = [(''fe_c.tdb'', create_simple_fec_database)]"
  using load_database_frame
          [where fs = "\<lparr>files = [''fe_c.tdb'' \<mapsto> ''old''], writes = []\<rparr>"
             and parse = "\<lambda>t. Inr (length t)" and contents = "''old''" and contents' = "''x''"]
        load_database_frame
          [where fs = "\<lparr>files = [''fe_cr_c.tdb'' \<mapsto> ''older''], writes = []\<rparr>"
             and parse = "\<lambda>t. Inr (length t)" and contents = "''x''" and contents' = "''older''"]
  by simp

section \<open>Properties of the menu\<close>

lemma check_loop_all:
  "list_all importable ps \<Longrightarrow> check_loop importable ps = (map Found ps, [])"
  by (induction ps) auto

lemma check_dependencies_ok:
  "list_all importable required \<Longrightarrow>
     check_dependencies importable =
       ([Banner ''Checking Dependencies''] @ map Found required @
        [Print ''\<newline>All dependencies satisfied!''], True)"
  by (simp add: check_dependencies_def check_loop_all)

lemma calls_append: "calls (xs @ ys) = calls xs @ calls ys"
  by (simp add: calls_def)

lemma calls_Nil: "calls [] = []"
  by (simp add: calls_def)

lemma calls_Cons:
  "calls (ev # evs) = (if ev = CallPartA \<or> ev = CallPartB then ev # calls evs else calls evs)"
  by (simp add: calls_def)

lemma calls_Found: "calls (map Found ps) = []"
  by (induction ps) (auto simp: calls_def)

lemma calls_menu: "calls menu = []"
  by (simp add: calls_def menu_def)

lemma calls_project_complete: "calls project_complete = []"
  by (simp add: calls_def project_complete_def)

lemma main_ok:
  assumes "list_all importable required" and "import_parts w = (w1, None)"
  shows "main importable import_parts (Some line) part_a_main part_b_main w =
           (case dispatch (strip line) part_a_main part_b_main w1 of
              (w2, out2, result) \<Rightarrow>
                (w2, [Banner ''THERMO-CALC PROJECT: CARBON AND STAINLESS STEEL DESIGN'',
                      Print ''Using pycalphad for computational thermodynamics'',
                      Print ''Author: Engineering Design Module 3'',
                      Banner ''Checking Dependencies''] @ map Found required @
                     [Print ''\<newline>All dependencies satisfied!''] @ menu @ out2, result))"
  using assms by (simp add: main_def check_dependencies_ok split: prod.splits)

lemma main_calls:
  assumes "list_all importable required" and "import_parts w = (w1, None)"
      and "main importable import_parts (Some line) part_a_main part_b_main w = (w', out, result)"
      and "dispatch (strip line) part_a_main part_b_main w1 = (w2, out2, result2)"
  shows "w' = w2 \<and> calls out = calls out2 \<and> result = result2 \<and> (out2 \<noteq> [] \<longrightarrow> last out = last out2)"
proof -
  have "main importable import_parts (Some line) part_a_main part_b_main w =
          (w2, [Banner ''THERMO-CALC PROJECT: CARBON AND STAINLESS STEEL DESIGN'',
                Print ''Using pycalphad for computational thermodynamics'',
                Print ''Author: Engineering Design Module 3'',
                Banner ''Checking Dependencies''] @ map Found required @
               [Print ''\<newline>All dependencies satisfied!''] @ menu @ out2, result2)"
    using main_ok [where importable = importable and import_parts = import_parts
                     and w = w and ?w1.0 = w1, OF assms(1) assms(2)] assms(4)
    by simp
  with assms(3) show ?thesis
    by (auto simp: calls_append calls_Found calls_menu calls_Cons calls_Nil)
qed

text \<open>
  Claim C7.  Once the dependency check has succeeded (and the two modules are
  imported), the program reads one line from standard input and dispatches on it,
  stripped of surrounding white space: \<open>1\<close> runs part A only, \<open>2\<close> runs part B only,
  \<open>3\<close> runs part A and then part B on the world part A left (and stops after part A
  if part A raises), \<open>4\<close> runs neither part and exits with status 0, and any other
  input runs neither part, reports an invalid choice and exits with status 1.
\<close>

theorem main_dispatch:
  assumes deps: "list_all importable required"
      and imp: "import_parts w = (w1, None)"
      and run: "main importable import_parts (Some line) part_a_main part_b_main w
                  = (w', out, result)"
  shows "(strip line = ''1'' \<longrightarrow>
            calls out = [CallPartA] \<and> w' = fst (part_a_main w1)
            \<and> result = ending (snd (part_a_main w1)))
       \<and> (strip line = ''2'' \<longrightarrow>
            calls out = [CallPartB] \<and> w' = fst (part_b_main w1)
            \<and> result = ending (snd (part_b_main w1)))
       \<and> (strip line = ''3'' \<longrightarrow>
            (snd (part_a_main w1) = None \<longrightarrow>
               calls out = [CallPartA, CallPartB]
               \<and> w' = fst (part_b_main (fst (part_a_main w1)))
               \<and> result = ending (snd (part_b_main (fst (part_a_main w1)))))
            \<and> (snd (part_a_main w1) \<noteq> None \<longrightarrow>
               calls out = [CallPartA] \<and> w' = fst (part_a_main w1)
               \<and> result = ending (snd (part_a_main w1))))
       \<and> (strip line = ''4'' \<longrightarrow>
            calls out = [] \<and> w' = w1 \<and> result = Exited 0 \<and> exit_status result = 0)
       \<and> (strip line \<notin> {''1'', ''2'', ''3'', ''4''} \<longrightarrow>
            calls out = [] \<and> w' = w1
            \<and> last out = Print ''Invalid choice. Please run again.''
            \<and> result = Exited 1 \<and> exit_status result \<noteq> 0)"
proof -
  obtain w2 out2 result2
    where d: "dispatch (strip line) part_a_main part_b_main w1 = (w2, out2, result2)"
    by (metis prod_cases3)
  note m = main_calls [OF deps imp run d]
  show ?thesis
    using d m
    by (auto simp: dispatch_def calls_append calls_Cons calls_Nil calls_project_complete
             split: prod.splits option.splits if_splits)
qed

theorem main_dispatch_witness:
  "calls (fst (snd 
       (main (\<lambda>p. True) (\<lambda>w. (w, None)) (Some '' 1'') (\<lambda>w. (w + 1, None)) (\<lambda>w. (2 * w, None)) (5::nat)))) = [CallPartA]
   \<and> fst 
       (main (\<lambda>p. True) (\<lambda>w. (w, None)) (Some '' 1'') (\<lambda>w. (w + 1, None)) (\<lambda>w. (2 * w, None)) (5::nat)) = 6
   \<and> snd (snd 
       (main (\<lambda>p. True) (\<lambda>w. (w, None)) (Some '' 1'') (\<lambda>w. (w + 1, None)) (\<lambda>w. (2 * w, None)) (5::nat))) = Returned
   \<and> calls (fst (snd 
       (main (\<lambda>p. True) (\<lambda>w. (w, None)) (Some ''2 '') (\<lambda>w. (w + 1, None)) (\<lambda>w. (2 * w, None)) (5::nat)))) = [CallPartB]
   \<and> fst 
       (main (\<lambda>p. True) (\<lambda>w. (w, None)) (Some ''2 '') (\<lambda>w. (w + 1, None)) (\<lambda>w. (2 * w, None)) (5::nat)) = 10
   \<and> snd (snd 
       (main (\<lambda>p. True) (\<lambda>w. (w, None)) (Some ''2 '') (\<lambda>w. (w + 1, None)) (\<lambda>w. (2 * w, None)) (5::nat))) = Returned
   \<and> calls (fst (snd 
       (main (\<lambda>p. True) (\<lambda>w. (w, None)) (Some '' 3 '') (\<lambda>w. (w + 1, None)) (\<lambda>w. (2 * w, None)) (5::nat)))) = [CallPartA, CallPartB]
   \<and> fst 
       (main (\<lambda>p. True) (\<lambda>w. (w, None)) (Some '' 3 '') (\<lambda>w. (w + 1, None)) (\<lambda>w. (2 * w, None)) (5::nat)) = 12
   \<and> snd (snd 
       (main (\<lambda>p. True) (\<lambda>w. (w, None)) (Some '' 3 '') (\<lambda>w. (w + 1, None)) (\<lambda>w. (2 * w, None)) (5::nat))) = Returned
   \<and> calls (fst (snd 
       (main (\<lambda>p. True) (\<lambda>w. (w, None)) (Some ''3'') (\<lambda>w. (w + 1, Some (LibraryError ''solver''))) (\<lambda>w. (2 * w, None)) (5::nat)))) = [CallPartA]
   \<and> fst 
       (main (\<lambda>p. True) (\<lambda>w. (w, None)) (Some ''3'') (\<lambda>w. (w + 1, Some (LibraryError ''solver''))) (\<lambda>w. (2 * w, None)) (5::nat)) = 6
   \<and> snd (snd 
       (main (\<lambda>p. True) (\<lambda>w. (w, None)) (Some ''3'') (\<lambda>w. (w + 1, Some (LibraryError ''solver''))) (\<lambda>w. (2 * w, None)) (5::nat))) = Raised (LibraryError ''solver'')
   \<and> calls (fst (snd 
       (main (\<lambda>p. True) (\<lambda>w. (w, None)) (Some [CHR ''4'', CHR 0xA0]) (\<lambda>w. (w + 1, None)) (\<lambda>w. (2 * w, None)) (5::nat)))) = []
   \<and> fst 
       (main (\<lambda>p. True) (\<lambda>w. (w, None)) (Some [CHR ''4'', CHR 0xA0]) (\<lambda>w. (w + 1, None)) (\<lambda>w. (2 * w, None)) (5::nat)) = 5
   \<and> exit_status (snd (snd 
       (main (\<lambda>p. True) (\<lambda>w. (w, None)) (Some [CHR ''4'', CHR 0xA0]) (\<lambda>w. (w + 1, None)) (\<lambda>w. (2 * w, None)) (5::nat)))) = 0
   \<and> calls (fst (snd 
       (main (\<lambda>p. True) (\<lambda>w. (w, None)) (Some ''12'') (\<lambda>w. (w + 1, None)) (\<lambda>w. (2 * w, None)) (5::nat)))) = []
   \<and> fst 
       (main (\<lambda>p. True) (\<lambda>w. (w, None)) (Some ''12'') (\<lambda>w. (w + 1, None)) (\<lambda>w. (2 * w, None)) (5::nat)) = 5
   \<and> last (fst (snd 
       (main (\<lambda>p. True) (\<lambda>w. (w, None)) (Some ''12'') (\<lambda>w. (w + 1, None)) (\<lambda>w. (2 * w, None)) (5::nat)))) = Print ''Invalid choice. Please run again.''
   \<and> exit_status (snd (snd 
       (main (\<lambda>p. True) (\<lambda>w. (w, None)) (Some ''12'') (\<lambda>w. (w + 1, None)) (\<lambda>w. (2 * w, None)) (5::nat)))) = 1"
  using main_dispatch
      [where importable = "\<lambda>p. True" and import_parts = "\<lambda>w. (w, None)"
         and w = "5::nat" and ?w1.0 = 5 and line = "'' 1''"
         and part_a_main = "(\<lambda>w. (w + 1, None))"
         and part_b_main = "(\<lambda>w. (2 * w, None))"
         and w' = "fst (main (\<lambda>p. True) (\<lambda>w. (w, None)) (Some '' 1'') (\<lambda>w. (w + 1, None)) (\<lambda>w. (2 * w, None)) (5::nat))"
         and out = "fst (snd (main (\<lambda>p. True) (\<lambda>w. (w, None)) (Some '' 1'') (\<lambda>w. (w + 1, None)) (\<lambda>w. (2 * w, None)) (5::nat)))"
         and result = "snd (snd (main (\<lambda>p. True) (\<lambda>w. (w, None)) (Some '' 1'') (\<lambda>w. (w + 1, None)) (\<lambda>w. (2 * w, None)) (5::nat)))"]
    main_dispatch
      [where importable = "\<lambda>p. True" and import_parts = "\<lambda>w. (w, None)"
         and w = "5::nat" and ?w1.0 = 5 and line = "''2 ''"
         and part_a_main = "(\<lambda>w. (w + 1, None))"
         and part_b_main = "(\<lambda>w. (2 * w, None))"
         and w' = "fst (main (\<lambda>p. True) (\<lambda>w. (w, None)) (Some ''2 '') (\<lambda>w. (w + 1, None)) (\<lambda>w. (2 * w, None)) (5::nat))"
         and out = "fst (snd (main (\<lambda>p. True) (\<lambda>w. (w, None)) (Some ''2 '') (\<lambda>w. (w + 1, None)) (\<lambda>w. (2 * w, None)) (5::nat)))"
         and result = "snd (snd (main (\<lambda>p. True) (\<lambda>w. (w, None)) (Some ''2 '') (\<lambda>w. (w + 1, None)) (\<lambda>w. (2 * w, None)) (5::nat)))"]
    main_dispatch
      [where importable = "\<lambda>p. True" and import_parts = "\<lambda>w. (w, None)"
         and w = "5::nat" and ?w1.0 = 5 and line = "'' 3 ''"
         and part_a_main = "(\<lambda>w. (w + 1, None))"
         and part_b_main = "(\<lambda>w. (2 * w, None))"
         and w' = "fst (main (\<lambda>p. True) (\<lambda>w. (w, None)) (Some '' 3 '') (\<lambda>w. (w + 1, None)) (\<lambda>w. (2 * w, None)) (5::nat))"
         and out = "fst (snd (main (\<lambda>p. True) (\<lambda>w. (w, None)) (Some '' 3 '') (\<lambda>w. (w + 1, None)) (\<lambda>w. (2 * w, None)) (5::nat)))"
         and result = "snd (snd (main (\<lambda>p. True) (\<lambda>w. (w, None)) (Some '' 3 '') (\<lambda>w. (w + 1, None)) (\<lambda>w. (2 * w, None)) (5::nat)))"]
    main_dispatch
      [where importable = "\<lambda>p. True" and import_parts = "\<lambda>w. (w, None)"
         and w = "5::nat" and ?w1.0 = 5 and line = "''3''"
         and part_a_main = "(\<lambda>w. (w + 1, Some (LibraryError ''solver'')))"
         and part_b_main = "(\<lambda>w. (2 * w, None))"
         and w' = "fst (main (\<lambda>p. True) (\<lambda>w. (w, None)) (Some ''3'') (\<lambda>w. (w + 1, Some (LibraryError ''solver''))) (\<lambda>w. (2 * w, None)) (5::nat))"
         and out = "fst (snd (main (\<lambda>p. True) (\<lambda>w. (w, None)) (Some ''3'') (\<lambda>w. (w + 1, Some (LibraryError ''solver''))) (\<lambda>w. (2 * w, None)) (5::nat)))"
         and result = "snd (snd (main (\<lambda>p. True) (\<lambda>w. (w, None)) (Some ''3'') (\<lambda>w. (w + 1, Some (LibraryError ''solver''))) (\<lambda>w. (2 * w, None)) (5::nat)))"]
    main_dispatch
      [where importable = "\<lambda>p. True" and import_parts = "\<lambda>w. (w, None)"
         and w = "5::nat" and ?w1.0 = 5 and line = "[CHR ''4'', CHR 0xA0]"
         and part_a_main = "(\<lambda>w. (w + 1, None))"
         and part_b_main = "(\<lambda>w. (2 * w, None))"
         and w' = "fst (main (\<lambda>p. True) (\<lambda>w. (w, None)) (Some [CHR ''4'', CHR 0xA0]) (\<lambda>w. (w + 1, None)) (\<lambda>w. (2 * w, None)) (5::nat))"
         and out = "fst (snd (main (\<lambda>p. True) (\<lambda>w. (w, None)) (Some [CHR ''4'', CHR 0xA0]) (\<lambda>w. (w + 1, None)) (\<lambda>w. (2 * w, None)) (5::nat)))"
         and result = "snd (snd (main (\<lambda>p. True) (\<lambda>w. (w, None)) (Some [CHR ''4'', CHR 0xA0]) (\<lambda>w. (w + 1, None)) (\<lambda>w. (2 * w, None)) (5::nat)))"]
    main_dispatch
      [where importable = "\<lambda>p. True" and import_parts = "\<lambda>w. (w, None)"
         and w = "5::nat" and ?w1.0 = 5 and line = "''12''"
         and part_a_main = "(\<lambda>w. (w + 1, None))"
         and part_b_main = "(\<lambda>w. (2 * w, None))"
         and w' = "fst (main (\<lambda>p. True) (\<lambda>w. (w, None)) (Some ''12'') (\<lambda>w. (w + 1, None)) (\<lambda>w. (2 * w, None)) (5::nat))"
         and out = "fst (snd (main (\<lambda>p. True) (\<lambda>w. (w, None)) (Some ''12'') (\<lambda>w. (w + 1, None)) (\<lambda>w. (2 * w, None)) (5::nat)))"
         and result = "snd (snd (main (\<lambda>p. True) (\<lambda>w. (w, None)) (Some ''12'') (\<lambda>w. (w + 1, None)) (\<lambda>w. (2 * w, None)) (5::nat)))"]
  by (simp add: required_def strip_def py_isspace_def)

section \<open>Properties of the equilibrium tables\<close>

lemma n_total_pos: "0 \<le> c_wt \<Longrightarrow> 0 \<le> cr_content \<Longrightarrow> 0 < n_total c_wt cr_content"
  unfolding n_total_def Let_def by (simp add: field_simps)


lemma mole_fractions_ok:
  "0 \<le> c_wt \<Longrightarrow> 0 \<le> cr_content \<Longrightarrow> \<exists>x. mole_fractions c_wt cr_content = Inr x"
  using n_total_pos [of c_wt cr_content]
  by (simp add: mole_fractions_def py_div_def Let_def)

lemma for_each_total:
  "(\<And>x. x \<in> set xs \<Longrightarrow> \<exists>row. body x = Inr row) \<Longrightarrow>
     \<exists>rows. for_each body xs = Inr rows \<and> list_all2 (\<lambda>x row. body x = Inr row) xs rows"
proof (induction xs)
  case Nil
  then show ?case by simp
next
  case (Cons x xs)
  obtain row where r: "body x = Inr row" using Cons.prems [of x] by auto
  obtain rows where rs: "for_each body xs = Inr rows"
      "list_all2 (\<lambda>x row. body x = Inr row) xs rows"
    using Cons.IH Cons.prems by auto
  show ?case using r rs by simp
qed

lemma b1_point_total:
  "0 \<le> c_wt \<Longrightarrow> 0 \<le> cr_content \<Longrightarrow>
     \<exists>row. b1_point lib db comps phase_list cr_content (c_wt, T) = Inr row"
  using mole_fractions_ok [of c_wt cr_content]
  by (auto simp: b1_point_def split: sum.splits)

lemma b2_point_total:
  "0 \<le> C \<Longrightarrow> 0 \<le> Cr \<Longrightarrow>
     \<exists>row. b2_point lib db comps phase_list temperature (name, Cr, C) = Inr row"
  using mole_fractions_ok [of C Cr]
  by (auto simp: b2_point_def split: sum.splits)

lemma b1_grid_nonneg: "(c_wt, T) \<in> set b1_grid \<Longrightarrow> 0 \<le> c_wt"
  by (auto simp: b1_grid_def)

lemma compositions_nonneg: "(name, Cr, C) \<in> set compositions \<Longrightarrow> 0 \<le> C \<and> 0 \<le> Cr"
  by (auto simp: compositions_def)

lemma plot_binary_total:
  assumes "0 \<le> cr_content"
  shows "\<exists>rows. plot_binary_at_fixed_cr lib db cr_content = Inr rows
           \<and> list_all2 (\<lambda>point row.
                 b1_point lib db b_comps (b_phases lib db) cr_content point = Inr row)
               b1_grid rows"
  unfolding plot_binary_at_fixed_cr_def
proof (rule for_each_total)
  fix x :: "real \<times> real" assume x: "x \<in> set b1_grid"
  obtain c_wt T where p: "x = (c_wt, T)" by (cases x)
  show "\<exists>row. b1_point lib db b_comps (b_phases lib db) cr_content x = Inr row"
    unfolding p using b1_grid_nonneg x p assms by (intro b1_point_total) auto
qed

lemma plot_ternary_total:
  "\<exists>rows. plot_ternary_diagram lib db temperature = Inr rows
           \<and> list_all2 (\<lambda>composition row.
                 b2_point lib db b_comps (b_phases lib db) temperature composition = Inr row)
               compositions rows"
  unfolding plot_ternary_diagram_def
proof (rule for_each_total)
  fix x :: "string \<times> real \<times> real" assume x: "x \<in> set compositions"
  obtain name Cr C where p: "x = (name, Cr, C)" by (cases x)
  show "\<exists>row. b2_point lib db b_comps (b_phases lib db) temperature x = Inr row"
    unfolding p using compositions_nonneg x p by (intro b2_point_total) auto
qed

lemma b1_try_solver:
  "equilibrium lib db comps phase_list (point_conds T x_Cr x_C) = Inl e \<Longrightarrow>
     b1_try lib db comps phase_list T c_wt x_Cr x_C = Inl e"
  by (simp add: b1_try_def)

lemma b1_try_read:
  "equilibrium lib db comps phase_list (point_conds T x_Cr x_C) = Inr eq \<Longrightarrow>
   Phase_values lib eq = Inl e \<or> NP_values lib eq = Inl e \<Longrightarrow>
     \<exists>e'. b1_try lib db comps phase_list T c_wt x_Cr x_C = Inl e'"
  by (auto simp: b1_try_def split: sum.splits)

lemma b1_point_sentinel:
  "mole_fractions c_wt cr_content = Inr (x_C, x_Cr) \<Longrightarrow>
   b1_try lib db comps phase_list T c_wt x_Cr x_C = Inl e \<Longrightarrow>
     b1_point lib db comps phase_list cr_content (c_wt, T)
       = Inr \<lparr>b1_T_K = T, b1_C_wt = c_wt, b1_phases = ''ERROR''\<rparr>"
  by (simp add: b1_point_def)

lemma b1_point_read:
  "mole_fractions c_wt cr_content = Inr (x_C, x_Cr) \<Longrightarrow>
   equilibrium lib db comps phase_list (point_conds T x_Cr x_C) = Inr eq \<Longrightarrow>
   Phase_values lib eq = Inl e \<or> NP_values lib eq = Inl e \<Longrightarrow>
     b1_point lib db comps phase_list cr_content (c_wt, T)
       = Inr \<lparr>b1_T_K = T, b1_C_wt = c_wt, b1_phases = ''ERROR''\<rparr>"
  using b1_try_read [of lib db comps phase_list T x_Cr x_C eq e c_wt]
  by (auto simp: b1_point_sentinel)

lemma b2_try_solver:
  "equilibrium lib db comps phase_list (point_conds temperature x_Cr x_C) = Inl e \<Longrightarrow>
     b2_try lib db comps phase_list temperature name x_Cr x_C = Inl e"
  by (simp add: b2_try_def)

lemma b2_try_read:
  "equilibrium lib db comps phase_list (point_conds temperature x_Cr x_C) = Inr eq \<Longrightarrow>
   Phase_values lib eq = Inl e \<or> NP_values lib eq = Inl e \<Longrightarrow>
     \<exists>e'. b2_try lib db comps phase_list temperature name x_Cr x_C = Inl e'"
  by (auto simp: b2_try_def split: sum.splits)

lemma b2_point_sentinel:
  "mole_fractions C Cr = Inr (x_C, x_Cr) \<Longrightarrow>
   b2_try lib db comps phase_list temperature name x_Cr x_C = Inl e \<Longrightarrow>
     b2_point lib db comps phase_list temperature (name, Cr, C)
       = Inr \<lparr>Composition = name, Phases = ''Calculation error - use phase diagram'',
              Count = 0\<rparr>"
  by (simp add: b2_point_def)

lemma b2_point_read:
  "mole_fractions C Cr = Inr (x_C, x_Cr) \<Longrightarrow>
   equilibrium lib db comps phase_list (point_conds temperature x_Cr x_C) = Inr eq \<Longrightarrow>
   Phase_values lib eq = Inl e \<or> NP_values lib eq = Inl e \<Longrightarrow>
     b2_point lib db comps phase_list temperature (name, Cr, C)
       = Inr \<lparr>Composition = name, Phases = ''Calculation error - use phase diagram'',
              Count = 0\<rparr>"
  using b2_try_read [of lib db comps phase_list temperature x_Cr x_C eq e name]
  by (auto simp: b2_point_sentinel)

lemma b2_phase_loop_isel:
  "b2_phase_loop (lib\<lparr>X_isel := f\<rparr>) eq i phase_array np_array
     = b2_phase_loop lib eq i phase_array np_array"
  by (induction phase_array arbitrary: i) (auto simp: Let_def split: sum.splits)


lemma b2_try_isel:
  "b2_try (lib\<lparr>X_isel := f\<rparr>) db comps phase_list temperature name x_Cr x_C
     = b2_try lib db comps phase_list temperature name x_Cr x_C"
  by (simp add: b2_try_def b2_phase_loop_isel cong: sum.case_cong)

lemma plot_ternary_isel:
  "plot_ternary_diagram (lib\<lparr>X_isel := f\<rparr>) db temperature
     = plot_ternary_diagram lib db temperature"
proof -
  have "b2_point (lib\<lparr>X_isel := f\<rparr>) db comps phase_list temperature
          = b2_point lib db comps phase_list temperature" for comps phase_list
    by (rule ext) (simp add: b2_point_def b2_try_isel cong: sum.case_cong prod.case_cong)
  then show ?thesis
    by (simp add: plot_ternary_diagram_def b_phases_def)
qed

lemma plot_phase_diagram_a1_raises:
  "equilibrium lib db a1_comps (a1_phases lib db) a1_conds = Inl e \<Longrightarrow>
     plot_phase_diagram_a1 lib db = Inl e"
  by (simp add: plot_phase_diagram_a1_def)

text \<open>
  Claim C6, as the code has it.  In the table loops of \<open>plot_binary_at_fixed_cr\<close> and
  \<open>plot_ternary_diagram\<close> every grid point gets exactly one row and the loop does not
  raise (for a chromium content that is not negative); an exception of the solver call
  is caught and the row of that point holds the sentinel (\<open>ERROR\<close>, or
  \<open>Calculation error - use phase diagram\<close> with count 0).  The same handler also
  catches a failure to read the phases or the phase amounts of the solver's result, in
  the same \<^verbatim>\<open>try\<close> block, with the same sentinel row; and in \<open>plot_ternary_diagram\<close>
  a failure to read the composition of a phase is caught by an inner handler and
  changes nothing in the table.  The solver call of \<open>plot_phase_diagram_a1\<close> has no
  handler: its exception propagates to the caller.
\<close>

theorem solver_errors_recorded:
  "(0 \<le> cr_content \<longrightarrow>
      (\<exists>rows. plot_binary_at_fixed_cr lib db cr_content = Inr rows
         \<and> list_all2 (\<lambda>point row.
               b1_point lib db b_comps (b_phases lib db) cr_content point = Inr row)
             b1_grid rows))
   \<and> (mole_fractions c_wt cr_content = Inr (x_C, x_Cr)
        \<and> equilibrium lib db comps phase_list (point_conds T x_Cr x_C) = Inl e \<longrightarrow>
      b1_point lib db comps phase_list cr_content (c_wt, T)
        = Inr \<lparr>b1_T_K = T, b1_C_wt = c_wt, b1_phases = ''ERROR''\<rparr>)
   \<and> (mole_fractions c_wt cr_content = Inr (x_C, x_Cr)
        \<and> equilibrium lib db comps phase_list (point_conds T x_Cr x_C) = Inr eq
        \<and> (Phase_values lib eq = Inl e \<or> NP_values lib eq = Inl e) \<longrightarrow>
      b1_point lib db comps phase_list cr_content (c_wt, T)
        = Inr \<lparr>b1_T_K = T, b1_C_wt = c_wt, b1_phases = ''ERROR''\<rparr>)
   \<and> (\<exists>rows. plot_ternary_diagram lib db temperature = Inr rows
         \<and> list_all2 (\<lambda>composition row.
               b2_point lib db b_comps (b_phases lib db) temperature composition = Inr row)
             compositions rows)
   \<and> (mole_fractions C Cr = Inr (y_C, y_Cr)
        \<and> equilibrium lib db comps phase_list (point_conds temperature y_Cr y_C) = Inl e \<longrightarrow>
      b2_point lib db comps phase_list temperature (name, Cr, C)
        = Inr \<lparr>Composition = name, Phases = ''Calculation error - use phase diagram'',
               Count = 0\<rparr>)
   \<and> (mole_fractions C Cr = Inr (y_C, y_Cr)
        \<and> equilibrium lib db comps phase_list (point_conds temperature y_Cr y_C) = Inr eq
        \<and> (Phase_values lib eq = Inl e \<or> NP_values lib eq = Inl e) \<longrightarrow>
      b2_point lib db comps phase_list temperature (name, Cr, C)
        = Inr \<lparr>Composition = name, Phases = ''Calculation error - use phase diagram'',
               Count = 0\<rparr>)
   \<and> plot_ternary_diagram (lib\<lparr>X_isel := f\<rparr>) db temperature
        = plot_ternary_diagram lib db temperature
   \<and> (equilibrium lib db a1_comps (a1_phases lib db) a1_conds = Inl e \<longrightarrow>
        plot_phase_diagram_a1 lib db = Inl e)"
proof (intro conjI impI)
  assume "0 \<le> cr_content"
  then show "\<exists>rows. plot_binary_at_fixed_cr lib db cr_content = Inr rows
         \<and> list_all2 (\<lambda>point row.
               b1_point lib db b_comps (b_phases lib db) cr_content point = Inr row)
             b1_grid rows"
    by (rule plot_binary_total)
next
  assume "mole_fractions c_wt cr_content = Inr (x_C, x_Cr)
        \<and> equilibrium lib db comps phase_list (point_conds T x_Cr x_C) = Inl e"
  then show "b1_point lib db comps phase_list cr_content (c_wt, T)
        = Inr \<lparr>b1_T_K = T, b1_C_wt = c_wt, b1_phases = ''ERROR''\<rparr>"
    by (simp add: b1_point_sentinel [OF _ b1_try_solver])
next
  assume a: "mole_fractions c_wt cr_content = Inr (x_C, x_Cr)
        \<and> equilibrium lib db comps phase_list (point_conds T x_Cr x_C) = Inr eq
        \<and> (Phase_values lib eq = Inl e \<or> NP_values lib eq = Inl e)"
  show "b1_point lib db comps phase_list cr_content (c_wt, T)
        = Inr \<lparr>b1_T_K = T, b1_C_wt = c_wt, b1_phases = ''ERROR''\<rparr>"
    by (rule b1_point_read
          [OF conjunct1 [OF a] conjunct1 [OF conjunct2 [OF a]] conjunct2 [OF conjunct2 [OF a]]])
next
  show "\<exists>rows. plot_ternary_diagram lib db temperature = Inr rows
         \<and> list_all2 (\<lambda>composition row.
               b2_point lib db b_comps (b_phases lib db) temperature composition = Inr row)
             compositions rows"
    by (rule plot_ternary_total)
next
  assume "mole_fractions C Cr = Inr (y_C, y_Cr)
        \<and> equilibrium lib db comps phase_list (point_conds temperature y_Cr y_C) = Inl e"
  then show "b2_point lib db comps phase_list temperature (name, Cr, C)
        = Inr \<lparr>Composition = name, Phases = ''Calculation error - use phase diagram'',
               Count = 0\<rparr>"
    by (simp add: b2_point_sentinel [OF _ b2_try_solver])
next
  assume a: "mole_fractions C Cr = Inr (y_C, y_Cr)
        \<and> equilibrium lib db comps phase_list (point_conds temperature y_Cr y_C) = Inr eq
        \<and> (Phase_values lib eq = Inl e \<or> NP_values lib eq = Inl e)"
  show "b2_point lib db comps phase_list temperature (name, Cr, C)
        = Inr \<lparr>Composition = name, Phases = ''Calculation error - use phase diagram'',
               Count = 0\<rparr>"
    by (rule b2_point_read
          [OF conjunct1 [OF a] conjunct1 [OF conjunct2 [OF a]] conjunct2 [OF conjunct2 [OF a]]])
next
  show "plot_ternary_diagram (lib\<lparr>X_isel := f\<rparr>) db temperature
        = plot_ternary_diagram lib db temperature"
    by (rule plot_ternary_isel)
next
  assume "equilibrium lib db a1_comps (a1_phases lib db) a1_conds = Inl e"
  then show "plot_phase_diagram_a1 lib db = Inl e"
    by (rule plot_phase_diagram_a1_raises)
qed

text \<open>
  As stated, claim C6 also says that a failure outside the solver calls is caught
  nowhere and ends the script.  It does not hold: with a library whose solver returns
  and whose composition read raises at every phase present, \<open>plot_ternary_diagram\<close>
  returns its four rows with the phases found; with a library whose solver returns and
  whose phase read raises, it returns four sentinel rows.  Neither failure propagates.
\<close>

theorem uncaught_elsewhere_counterexample:
  "X_isel lib_isel_fails () 0 = Inl (LibraryError ''isel'')
   \<and> plot_ternary_diagram lib_isel_fails () 1500
       = Inr [\<lparr>Composition = ''Fe-15.0Cr-0.01C'', Phases = ''FCC_A1'', Count = 1\<rparr>,
              \<lparr>Composition = ''Fe-15.0Cr-0.70C'', Phases = ''FCC_A1'', Count = 1\<rparr>,
              \<lparr>Composition = ''Fe-20.0Cr-0.20C'', Phases = ''FCC_A1'', Count = 1\<rparr>,
              \<lparr>Composition = ''Fe-15.0Cr-3.0C'', Phases = ''FCC_A1'', Count = 1\<rparr>]
   \<and> Phase_values lib_read_fails () = Inl (LibraryError ''squeeze'')
   \<and> plot_ternary_diagram lib_read_fails () 1500
       = Inr [\<lparr>Composition = ''Fe-15.0Cr-0.01C'',
               Phases = ''Calculation error - use phase diagram'', Count = 0\<rparr>,
              \<lparr>Composition = ''Fe-15.0Cr-0.70C'',
               Phases = ''Calculation error - use phase diagram'', Count = 0\<rparr>,
              \<lparr>Composition = ''Fe-20.0Cr-0.20C'',
               Phases = ''Calculation error - use phase diagram'', Count = 0\<rparr>,
              \<lparr>Composition = ''Fe-15.0Cr-3.0C'',
               Phases = ''Calculation error - use phase diagram'', Count = 0\<rparr>]"
  by (simp add: plot_ternary_diagram_def compositions_def b2_point_def b2_try_def
        mole_fractions_def n_total_def py_div_def lib_isel_fails_def lib_read_fails_def
        significant_def strip_def py_isspace_def b_phases_def b_comps_def point_conds_def
        Let_def)


lemma mole_fractions_example:
  "mole_fractions (1 / 2) (25 / 2)
     = Inr (322635180 / 14259971371, 1863206375 / 14259971371)"
  by (simp add: mole_fractions_def n_total_def py_div_def)

lemma lib_solver_fails_simps:
  "equilibrium lib_solver_fails db comps phase_list conditions = Inl (LibraryError ''solver'')"
  by (simp add: lib_solver_fails_def)

lemma lib_read_fails_simps:
  "equilibrium lib_read_fails db comps phase_list conditions = Inr ()"
  "Phase_values lib_read_fails eq = Inl (LibraryError ''squeeze'')"
  by (simp_all add: lib_read_fails_def)

theorem solver_errors_recorded_witness:
  "(\<exists>rows. plot_binary_at_fixed_cr lib_solver_fails () 12.5 = Inr rows
       \<and> list_all2 (\<lambda>point row.
             b1_point lib_solver_fails () b_comps (b_phases lib_solver_fails ()) 12.5 point
               = Inr row)
           b1_grid rows)
   \<and> b1_point lib_solver_fails () b_comps [''FCC_A1''] 12.5 (0.5, 1350)
       = Inr \<lparr>b1_T_K = 1350, b1_C_wt = 0.5, b1_phases = ''ERROR''\<rparr>
   \<and> b1_point lib_read_fails () b_comps [''FCC_A1''] 12.5 (0.5, 1350)
       = Inr \<lparr>b1_T_K = 1350, b1_C_wt = 0.5, b1_phases = ''ERROR''\<rparr>
   \<and> b2_point lib_solver_fails () b_comps [''FCC_A1''] 1500 (''Fe-12.5Cr-0.5C'', 12.5, 0.5)
       = Inr \<lparr>Composition = ''Fe-12.5Cr-0.5C'',
               Phases = ''Calculation error - use phase diagram'', Count = 0\<rparr>
   \<and> b2_point lib_read_fails () b_comps [''FCC_A1''] 1500 (''Fe-12.5Cr-0.5C'', 12.5, 0.5)
       = Inr \<lparr>Composition = ''Fe-12.5Cr-0.5C'',
               Phases = ''Calculation error - use phase diagram'', Count = 0\<rparr>
   \<and> plot_phase_diagram_a1 lib_solver_fails () = Inl (LibraryError ''solver'')"
  using solver_errors_recorded
          [where lib = lib_solver_fails and db = "()" and cr_content = "12.5" and c_wt = "0.5"
             and x_C = "322635180 / 14259971371" and x_Cr = "1863206375 / 14259971371"
             and comps = b_comps and phase_list = "[''FCC_A1'']" and T = 1350
             and e = "LibraryError ''solver''" and eq = "()" and temperature = 1500
             and C = "0.5" and Cr = "12.5"
             and y_C = "322635180 / 14259971371" and y_Cr = "1863206375 / 14259971371"
             and name = "''Fe-12.5Cr-0.5C''" and f = "\<lambda>eq i. Inr []"]
        solver_errors_recorded
          [where lib = lib_read_fails and db = "()" and cr_content = "12.5" and c_wt = "0.5"
             and x_C = "322635180 / 14259971371" and x_Cr = "1863206375 / 14259971371"
             and comps = b_comps and phase_list = "[''FCC_A1'']" and T = 1350
             and e = "LibraryError ''squeeze''" and eq = "()" and temperature = 1500
             and C = "0.5" and Cr = "12.5"
             and y_C = "322635180 / 14259971371" and y_Cr = "1863206375 / 14259971371"
             and name = "''Fe-12.5Cr-0.5C''" and f = "\<lambda>eq i. Inr []"]
  by (simp add: mole_fractions_example lib_solver_fails_simps lib_read_fails_simps)

end
